theory Spec2Isabelle
  imports Complex_Main
begin

section \<open>Container geometry analyzer: segmentation and reconstruction engine\<close>

text \<open>
  A shallow embedding of the engine that turns a table of heights, volumes and
  cross-section areas into fitted segments and a radius profile. The repository holds the
  engine in three copies: the top-level module \<^verbatim>\<open>container_geometry_analyzer_gui_v3_11_8.py\<close>
  (1508 lines, the module that \<^verbatim>\<open>setup.py\<close> installs), its revision of the same name in
  the subdirectory \<^verbatim>\<open>src\<close> (2388 lines, the module the test scripts import), and version
  3.11.0. The detectors, the validation of boundaries, the Hermite arcs and the profile are
  embedded from the revision, together with \<^verbatim>\<open>stability_detection.py\<close>. The fitting stage
  is embedded twice: from the revision (four volume models, complexity penalty, cylinder
  preference, merging pass) and, under names that end in \<open>_root\<close>, from the top-level module
  (cylinder and frustum only, no preference, no merging pass; version 3.11.0 selects in the
  same way).

  Python floats are modelled as \<^typ>\<open>real\<close> (no rounding, no NaN), Python integers as
  \<^typ>\<open>int\<close>, numpy arrays and pandas columns as lists. The scipy and pandas routines the
  engine calls (Savitzky-Golay filter, Gaussian filter, peak finder, rolling median, bounded
  least squares) are not code of the repository: they are the fields of a record that every
  function takes as its first argument, and an exception they raise is the value \<open>None\<close>.
  A division by zero, which numpy answers with \<open>inf\<close> or NaN, has the value 0 here; in the
  derivatives it arises only for repeated heights.
\<close>

subsection \<open>Exceptions\<close>

datatype py_error = IndexError | ZeroDivisionError | ValueError | LibraryError

subsection \<open>numpy on lists of reals\<close>

definition np_mean :: "real list \<Rightarrow> real" where
  "np_mean xs = sum_list xs / real (length xs)"

definition np_var :: "real list \<Rightarrow> real" where
  "np_var xs = np_mean (map (\<lambda>x. (x - np_mean xs)\<^sup>2) xs)"

definition np_std :: "real list \<Rightarrow> real" where
  "np_std xs = sqrt (np_var xs)"

definition np_median :: "real list \<Rightarrow> real" where
  "np_median xs =
     (let s = sort xs; n = length xs
      in if odd n then s ! (n div 2) else (s ! (n div 2 - 1) + s ! (n div 2)) / 2)"

definition np_max :: "real list \<Rightarrow> real" where
  "np_max xs = fold max (tl xs) (hd xs)"

definition np_min :: "real list \<Rightarrow> real" where
  "np_min xs = fold min (tl xs) (hd xs)"

definition np_diff :: "real list \<Rightarrow> real list" where
  "np_diff xs = map (\<lambda>(a, b). b - a) (zip xs (tl xs))"

definition np_abs :: "real list \<Rightarrow> real list" where
  "np_abs xs = map abs xs"

definition np_clip :: "real \<Rightarrow> real \<Rightarrow> real \<Rightarrow> real" where
  "np_clip x lo hi = min (max x lo) hi"

text \<open>\<^verbatim>\<open>np.linspace(a, b, num)\<close> with the end point included; one sample is the start.\<close>

definition np_linspace :: "real \<Rightarrow> real \<Rightarrow> nat \<Rightarrow> real list" where
  "np_linspace a b num =
     (if num = 1 then [a]
      else map (\<lambda>i. a + real i * ((b - a) / real (num - 1))) [0..<num])"

text \<open>\<^verbatim>\<open>np.where(cond)[0]\<close>: the indices at which a condition holds.\<close>

definition np_where :: "('a \<Rightarrow> bool) \<Rightarrow> 'a list \<Rightarrow> int list" where
  "np_where P xs = map int (filter (\<lambda>i. P (xs ! i)) [0..<length xs])"

text \<open>
  \<^verbatim>\<open>np.gradient(f, x)\<close> with \<open>edge_order = 1\<close>: one-sided differences at the two ends,
  the second-order formula for uneven spacing inside. numpy raises \<open>ValueError\<close> under two
  samples; the callers below are guarded, and the model returns the empty list there.
\<close>

definition np_gradient :: "real list \<Rightarrow> real list \<Rightarrow> real list" where
  "np_gradient f x =
     (let n = length f in
      if n < 2 then []
      else map (\<lambda>i.
             if i = 0 then (f ! 1 - f ! 0) / (x ! 1 - x ! 0)
             else if i = n - 1 then (f ! (n - 1) - f ! (n - 2)) / (x ! (n - 1) - x ! (n - 2))
             else (let dx1 = x ! i - x ! (i - 1); dx2 = x ! (i + 1) - x ! i
                   in (- dx2 / (dx1 * (dx1 + dx2))) * f ! (i - 1)
                      + ((dx2 - dx1) / (dx1 * dx2)) * f ! i
                      + (dx1 / (dx2 * (dx1 + dx2))) * f ! (i + 1)))
           [0..<n])"

text \<open>\<^verbatim>\<open>np.arange(n, dtype=float)\<close> and \<^verbatim>\<open>np.gradient(f)\<close> with unit spacing.\<close>

definition np_arange :: "nat \<Rightarrow> real list" where
  "np_arange n = map real [0..<n]"

definition np_gradient_unit :: "real list \<Rightarrow> real list" where
  "np_gradient_unit f = np_gradient f (np_arange (length f))"

text \<open>
  \<^verbatim>\<open>np.percentile(a, q)\<close>, linear interpolation between the two nearest order statistics.
\<close>

definition np_percentile :: "real list \<Rightarrow> real \<Rightarrow> real" where
  "np_percentile a q =
     (let s = sort a;
          pos = q / 100 * real (length a - 1);
          lo = nat \<lfloor>pos\<rfloor>;
          hi = min (lo + 1) (length a - 1)
      in s ! lo + (s ! hi - s ! lo) * (pos - real lo))"

text \<open>Python slicing \<^verbatim>\<open>xs[a:b]\<close> and indexing \<^verbatim>\<open>xs[i]\<close> with integer bounds.\<close>

definition py_norm :: "nat \<Rightarrow> int \<Rightarrow> nat" where
  "py_norm len i = (if i < 0 then nat (max (i + int len) 0) else min (nat i) len)"

definition py_slice :: "'a list \<Rightarrow> int \<Rightarrow> int \<Rightarrow> 'a list" where
  "py_slice xs a b =
     (let lo = py_norm (length xs) a; hi = py_norm (length xs) b
      in take (hi - lo) (drop lo xs))"

definition py_index :: "'a list \<Rightarrow> int \<Rightarrow> py_error + 'a" where
  "py_index xs i =
     (if 0 \<le> i \<and> i < int (length xs) then Inr (xs ! nat i)
      else if - int (length xs) \<le> i \<and> i < 0 then Inr (xs ! nat (i + int (length xs)))
      else Inl IndexError)"

subsection \<open>Configuration\<close>

record geometric_constraints =
  min_differential_volume :: real
  radius_safety_margin :: real
  fit_bounds_lower :: real
  fit_bounds_upper :: real

definition GEOMETRIC_CONSTRAINTS :: geometric_constraints where
  "GEOMETRIC_CONSTRAINTS =
     \<lparr> min_differential_volume = 0.01, radius_safety_margin = 0.8,
       fit_bounds_lower = 0.5, fit_bounds_upper = 3.0 \<rparr>"

record analysis_params =
  min_points :: int
  percentile :: real
  variance_threshold :: real
  hermite_tension :: real
  maxfev :: int
  transition_detection_method :: string
  use_adaptive_threshold :: bool

text \<open>
  The module-level dictionary \<^verbatim>\<open>DEFAULT_PARAMS\<close>, with the keys the engine reads: its
  contents as the revision defines them. The dictionary is mutable; the functions that read
  it take its contents at the time of the call as an argument.
\<close>

definition DEFAULT_PARAMS :: analysis_params where
  "DEFAULT_PARAMS =
     \<lparr> min_points = 12, percentile = 96, variance_threshold = 0.14, hermite_tension = 0.6,
       maxfev = 4000, transition_detection_method = ''improved'',
       use_adaptive_threshold = True \<rparr>"

subsection \<open>Library routines\<close>

text \<open>
  \<^item> \<open>savgol_filter x window_length polyorder\<close>: \<^verbatim>\<open>scipy.signal.savgol_filter\<close>;
  \<^item> \<open>gaussian_filter1d x sigma mode\<close>: \<^verbatim>\<open>scipy.ndimage.gaussian_filter1d\<close>;
  \<^item> \<open>find_peaks x height distance\<close>: the peak indices of \<^verbatim>\<open>scipy.signal.find_peaks\<close>;
  \<^item> \<open>rolling_median x window\<close>: the centred pandas rolling median, back- and forward-filled;
  \<^item> \<open>curve_fit model xdata ydata p0 lower upper maxfev\<close>: the fitted parameters of
    \<^verbatim>\<open>scipy.optimize.curve_fit\<close> for the named volume model.
\<close>

record library =
  savgol_filter :: "real list \<Rightarrow> int \<Rightarrow> int \<Rightarrow> real list option"
  gaussian_filter1d :: "real list \<Rightarrow> real \<Rightarrow> string \<Rightarrow> real list"
  find_peaks :: "real list \<Rightarrow> real \<Rightarrow> int \<Rightarrow> int list option"
  rolling_median :: "real list \<Rightarrow> int \<Rightarrow> real list"
  curve_fit ::
    "string \<Rightarrow> real list \<Rightarrow> real list \<Rightarrow> real list \<Rightarrow> real list \<Rightarrow> real list \<Rightarrow> int
       \<Rightarrow> real list option"

subsection \<open>Transition detection: the improved (multi-derivative) detector\<close>

text \<open>The smoothing window \<^verbatim>\<open>max(5, min(15, n // 10))\<close>, made odd.\<close>

definition smoothing_window :: "int \<Rightarrow> int" where
  "smoothing_window n =
     (let window = max 5 (min 15 (n div 10))
      in if window mod 2 = 0 then window + 1 else window)"

text \<open>The local function \<^verbatim>\<open>normalize_score\<close>.\<close>

definition normalize_score :: "real list \<Rightarrow> real list" where
  "normalize_score arr =
     (let arr_min = np_min arr; arr_max = np_max arr
      in if arr_max - arr_min < 1 / 10 ^ 10 then map (\<lambda>_. 0) arr
         else map (\<lambda>a. (a - arr_min) / (arr_max - arr_min)) arr)"

text \<open>
  The combined score of the first and second derivative:
  \<^verbatim>\<open>0.6 * normalize_score(first_deriv_change) + 0.4 * normalize_score(second_deriv_abs)\<close>.
\<close>

definition transition_score :: "real list \<Rightarrow> real list \<Rightarrow> real list" where
  "transition_score first_deriv second_deriv =
     (let first_deriv_change = np_abs (np_diff first_deriv);
          second_deriv_abs = np_abs (butlast second_deriv)
      in map (\<lambda>(a, b). 0.6 * a + 0.4 * b)
           (zip (normalize_score first_deriv_change) (normalize_score second_deriv_abs)))"

text \<open>The percentile chosen from the signal-to-noise ratio.\<close>

definition adaptive_percentile :: "real \<Rightarrow> real" where
  "adaptive_percentile snr =
     (if snr > 100 then 70
      else if snr > 50 then 75
      else if snr > 20 then 80
      else if snr > 10 then 85
      else 90)"

text \<open>
  The signal-to-noise estimate. The wide Savitzky-Golay call stands outside every
  \<^verbatim>\<open>try\<close>: an exception of the filter leaves the detector.
\<close>

definition estimate_snr :: "library \<Rightarrow> real list \<Rightarrow> py_error + real" where
  "estimate_snr lib area =
     (let n = int (length area);
          window_length = min 21 (if (n div 5) mod 2 = 1 then n div 5 else n div 5 + 1)
      in case savgol_filter lib area window_length 2 of
           None \<Rightarrow> Inl LibraryError
         | Some area_very_smooth \<Rightarrow>
             (let noise = map (\<lambda>(a, b). a - b) (zip area area_very_smooth);
                  noise_std = np_std noise;
                  signal_range = np_max area - np_min area
              in Inr (signal_range / (noise_std + 1 / 10 ^ 8))))"

text \<open>
  The spacing loop: a candidate is accepted when it lies at least \<open>min_points\<close> after the
  last accepted boundary and before the final index. \<open>l\<close> is \<^verbatim>\<open>transitions[-1]\<close>.
\<close>

fun accept_candidates :: "int \<Rightarrow> int \<Rightarrow> int \<Rightarrow> int list \<Rightarrow> int list" where
  "accept_candidates mp n l [] = []"
| "accept_candidates mp n l (cand # cands) =
     (if cand - l \<ge> mp \<and> cand < n - 1 then cand # accept_candidates mp n cand cands
      else accept_candidates mp n l cands)"

definition enforce_spacing :: "int \<Rightarrow> int \<Rightarrow> int list \<Rightarrow> int list" where
  "enforce_spacing mp n candidates =
     (let transitions = 0 # accept_candidates mp n 0 (sort candidates)
      in if last transitions \<noteq> n - 1 then transitions @ [n - 1] else transitions)"

text \<open>The three validation criteria of a candidate segment.\<close>

definition has_variation :: "real list \<Rightarrow> bool" where
  "has_variation seg_area = (np_std seg_area / (np_mean seg_area + 1 / 10 ^ 8) > 0.05)"

text \<open>
  \<^verbatim>\<open>np.corrcoef(x, y)[0, 1]\<close>: the covariance over the two standard deviations, clipped to
  \<open>[-1, 1]\<close>. Where a variance is zero numpy yields NaN, and every comparison with NaN is
  false: the value is \<open>None\<close>.
\<close>

definition np_cov :: "real list \<Rightarrow> real list \<Rightarrow> real" where
  "np_cov x y =
     sum_list (map (\<lambda>(a, b). (a - np_mean x) * (b - np_mean y)) (zip x y))
       / (real (length x) - 1)"

definition np_corrcoef :: "real list \<Rightarrow> real list \<Rightarrow> real option" where
  "np_corrcoef x y =
     (if np_cov x x = 0 \<or> np_cov y y = 0 then None
      else Some (np_clip (np_cov x y / sqrt (np_cov x x) / sqrt (np_cov y y)) (- 1) 1))"

definition has_structure :: "real list \<Rightarrow> bool" where
  "has_structure seg_area =
     (if length seg_area > 3 then
        (case np_corrcoef (butlast seg_area) (tl seg_area) of
           None \<Rightarrow> False
         | Some correlation \<Rightarrow> \<bar>correlation\<bar> > 0.4)
      else True)"

text \<open>\<^verbatim>\<open>np.polyfit(x, y, 1)\<close>: slope and intercept of the least-squares line.\<close>

definition np_polyfit1 :: "real list \<Rightarrow> real list \<Rightarrow> real \<times> real" where
  "np_polyfit1 x y =
     (let slope = sum_list (map (\<lambda>(a, b). (a - np_mean x) * (b - np_mean y)) (zip x y))
                    / sum_list (map (\<lambda>a. (a - np_mean x)\<^sup>2) x)
      in (slope, np_mean y - slope * np_mean x))"

definition r_squared :: "real list \<Rightarrow> real" where
  "r_squared seg_area =
     (let z = np_arange (length seg_area);
          (slope, intercept) = np_polyfit1 z seg_area;
          area_predicted = map (\<lambda>zi. slope * zi + intercept) z
      in 1 - sum_list (map (\<lambda>(a, p). (a - p)\<^sup>2) (zip seg_area area_predicted))
             / (sum_list (map (\<lambda>a. (a - np_mean seg_area)\<^sup>2) seg_area) + 1 / 10 ^ 8))"

definition fits_model :: "real list \<Rightarrow> bool" where
  "fits_model seg_area = (if length seg_area > 2 then r_squared seg_area > 0.65 else True)"

definition passed_criteria :: "real list \<Rightarrow> nat" where
  "passed_criteria seg_area =
     of_bool (has_variation seg_area) + of_bool (has_structure seg_area)
       + of_bool (fits_model seg_area)"

text \<open>
  One turn of the validation loop, for the segment between \<open>transitions[i]\<close> and
  \<open>transitions[i + 1]\<close>: whether its end is appended to \<^verbatim>\<open>validated\<close>.
\<close>

definition segment_kept :: "real list \<Rightarrow> int \<Rightarrow> int list \<Rightarrow> nat \<Rightarrow> bool" where
  "segment_kept area mp transitions i =
     (let seg_start = transitions ! i; seg_end = transitions ! (i + 1)
      in if seg_end - seg_start + 1 < mp then False
         else (let seg_area = py_slice area seg_start (seg_end + 1);
                   is_boundary = (i = 0 \<or> int i = int (length transitions) - 2)
               in passed_criteria seg_area \<ge> 2 \<or> is_boundary))"

definition validate_transitions :: "real list \<Rightarrow> int \<Rightarrow> int list \<Rightarrow> int list" where
  "validate_transitions area mp transitions =
     (let validated =
            hd transitions
              # map (\<lambda>i. transitions ! (i + 1))
                  (filter (segment_kept area mp transitions) [0..<length transitions - 1]);
          validated' =
            (if validated = [] \<or> last validated \<noteq> last transitions
             then validated @ [last transitions]
             else validated)
      in sort (remdups validated'))"

text \<open>
  The stages of \<^verbatim>\<open>find_optimal_transitions_improved\<close> past its guard. The first
  Savitzky-Golay call and the peak finder stand in a \<^verbatim>\<open>try\<close> with a fallback.
\<close>

definition improved_score :: "library \<Rightarrow> real list \<Rightarrow> real list \<Rightarrow> real list" where
  "improved_score lib area heights =
     (let area_smooth =
            (case savgol_filter lib area (smoothing_window (int (length area))) 2 of
               Some s \<Rightarrow> s
             | None \<Rightarrow> gaussian_filter1d lib area 2 ''reflect'');
          first_deriv = np_gradient area_smooth heights;
          second_deriv = np_gradient first_deriv heights
      in transition_score first_deriv second_deriv)"

definition improved_percentile :: "library \<Rightarrow> real list \<Rightarrow> bool \<Rightarrow> py_error + real" where
  "improved_percentile lib area use_adaptive =
     (if use_adaptive then
        (case estimate_snr lib area of
           Inl e \<Rightarrow> Inl e
         | Inr snr \<Rightarrow> Inr (adaptive_percentile snr))
      else Inr 96)"

definition transitions_at_threshold ::
  "library \<Rightarrow> real list \<Rightarrow> int \<Rightarrow> real list \<Rightarrow> real \<Rightarrow> int list" where
  "transitions_at_threshold lib area mp score threshold =
     (let candidates =
            (case find_peaks lib score threshold mp of
               Some peaks \<Rightarrow> map (\<lambda>c. c + 1) peaks
             | None \<Rightarrow> map (\<lambda>c. c + 1) (np_where (\<lambda>v. v > threshold) score));
          transitions = enforce_spacing mp (int (length area)) candidates
      in validate_transitions area mp transitions)"

text \<open>
  \<^verbatim>\<open>find_optimal_transitions_improved(area, heights=None, min_points=12, use_adaptive=True)\<close>.
\<close>

definition find_optimal_transitions_improved ::
  "library \<Rightarrow> real list \<Rightarrow> real list option \<Rightarrow> int \<Rightarrow> bool \<Rightarrow> py_error + int list" where
  "find_optimal_transitions_improved lib area heights_arg mp use_adaptive =
     (let n = int (length area);
          heights = (case heights_arg of None \<Rightarrow> np_arange (length area) | Some h \<Rightarrow> h)
      in if n < 2 * mp then Inr [0, n - 1]
         else if n < 2 then Inl ValueError
         else
           (let score = improved_score lib area heights
            in case improved_percentile lib area use_adaptive of
                 Inl e \<Rightarrow> Inl e
               | Inr pct \<Rightarrow>
                   Inr (transitions_at_threshold lib area mp score (np_percentile score pct))))"

subsection \<open>Transition detection: the legacy detector\<close>

fun accept_candidates_legacy :: "int \<Rightarrow> int \<Rightarrow> int list \<Rightarrow> int list" where
  "accept_candidates_legacy mp l [] = []"
| "accept_candidates_legacy mp l (cand # cands) =
     (if cand - l \<ge> mp then cand # accept_candidates_legacy mp cand cands
      else accept_candidates_legacy mp l cands)"

definition segment_kept_legacy :: "real list \<Rightarrow> int \<Rightarrow> real \<Rightarrow> int list \<Rightarrow> nat \<Rightarrow> bool" where
  "segment_kept_legacy area mp var_threshold transitions i =
     (let seg_start = transitions ! i; seg_end = transitions ! (i + 1)
      in seg_end - seg_start + 1 \<ge> mp
         \<and> (let seg = py_slice area seg_start seg_end
            in np_std seg / (np_mean seg + 1 / 10 ^ 8) > var_threshold))"

text \<open>
  \<^verbatim>\<open>find_optimal_transitions(area, min_points=12, percentile=80, variance_threshold=0.15)\<close>.
  At the end a lone start index gets the final index appended; otherwise the last validated
  entry is overwritten with the final index.
\<close>

definition find_optimal_transitions ::
  "library \<Rightarrow> real list \<Rightarrow> int \<Rightarrow> real \<Rightarrow> real \<Rightarrow> int list" where
  "find_optimal_transitions lib area mp pct var_threshold =
     (let n = int (length area)
      in if n < 2 * mp then [0, n - 1]
         else
           (let window = smoothing_window n;
                area_smooth =
                  (case savgol_filter lib area window (min 2 (window div 2)) of
                     Some s \<Rightarrow> s
                   | None \<Rightarrow> rolling_median lib area window);
                diff = np_abs (np_diff area_smooth);
                threshold = np_percentile diff pct;
                candidates = map (\<lambda>c. c + 1) (np_where (\<lambda>d. d > threshold) diff);
                accepted = 0 # accept_candidates_legacy mp 0 candidates;
                transitions = (if last accepted \<noteq> n - 1 then accepted @ [n - 1] else accepted);
                validated =
                  0 # map (\<lambda>i. transitions ! (i + 1))
                        (filter (segment_kept_legacy area mp var_threshold transitions)
                           [0..<length transitions - 1]);
                validated' =
                  (if length validated = 1 then validated @ [n - 1]
                   else if last validated \<noteq> n - 1 then butlast validated @ [n - 1]
                   else validated)
            in sort (remdups validated')))"

subsection \<open>Stability-based detection and segment-count prediction\<close>

text \<open>\<^verbatim>\<open>compute_curvature\<close>: \<open>|d2A| / ((1 + |dA|) ** 1.5 + 1e-8)\<close>.\<close>

definition compute_curvature :: "real list \<Rightarrow> real list \<Rightarrow> real list" where
  "compute_curvature area heights =
     (if length area < 3 then map (\<lambda>_. 0) area
      else (let dA_dh = np_gradient area heights;
                d2A_dh2 = np_gradient dA_dh heights
            in map (\<lambda>(d2, d1). \<bar>d2\<bar> / ((1 + \<bar>d1\<bar>) powr 1.5 + 1 / 10 ^ 8))
                 (zip d2A_dh2 dA_dh)))"

text \<open>
  \<^verbatim>\<open>compute_stability_metric(area, heights, window_size=5)\<close>. The second Savitzky-Golay call
  is not guarded; numpy raises for a gradient of fewer than two samples.
\<close>

definition compute_stability_metric ::
  "library \<Rightarrow> real list \<Rightarrow> real list \<Rightarrow> int
     \<Rightarrow> py_error + (real list \<times> real list \<times> real list)" where
  "compute_stability_metric lib area heights window_size =
     (let n = int (length area);
          area_smooth =
            (case savgol_filter lib area (smoothing_window n) 2 of
               Some s \<Rightarrow> s
             | None \<Rightarrow> gaussian_filter1d lib area 2 ''reflect'')
      in if n < 2 then Inl ValueError
         else
           (let dA_dh = np_gradient area_smooth heights;
                d2A_dh2 = np_gradient dA_dh heights;
                half_window = window_size div 2;
                d2A_dh2_windowed =
                  map (\<lambda>i. np_mean (np_abs (py_slice d2A_dh2 (max 0 (int i - half_window))
                                                 (min n (int i + half_window + 1)))))
                    [0..<length area];
                stability = map (\<lambda>(w, d). w / (1 + \<bar>d\<bar> + 1 / 10 ^ 8)) (zip d2A_dh2_windowed dA_dh)
            in case savgol_filter lib stability (min 7 n) 2 of
                 None \<Rightarrow> Inl LibraryError
               | Some stability_smooth \<Rightarrow>
                   if length stability_smooth < 2 then Inl ValueError
                   else Inr (stability_smooth, np_gradient_unit stability_smooth, area_smooth)))"

text \<open>The three heuristics, each \<open>min(1 + count // k, 3)\<close> of a count.\<close>

definition np_sign :: "real \<Rightarrow> real" where
  "np_sign x = (if x < 0 then - 1 else if x = 0 then 0 else 1)"

definition predict_segment_count_zero_crossing :: "real list \<Rightarrow> real list \<Rightarrow> int" where
  "predict_segment_count_zero_crossing area heights =
     (if length area < 10 then 1
      else (let dA_dh = np_gradient area heights;
                d2A_dh2 = np_gradient dA_dh heights;
                sign_changes = int (length (filter (\<lambda>d. d \<noteq> 0) (np_diff (map np_sign d2A_dh2))))
            in min (1 + sign_changes div 2) 3))"

definition predict_segment_count_curvature_regime ::
  "library \<Rightarrow> real list \<Rightarrow> real list \<Rightarrow> py_error + int" where
  "predict_segment_count_curvature_regime lib area heights =
     (if length area < 10 then Inr 1
      else (let curvature = compute_curvature area heights
            in case savgol_filter lib curvature (min 7 (int (length curvature))) 2 of
                 None \<Rightarrow> Inl LibraryError
               | Some curvature_smooth \<Rightarrow>
                   if length curvature_smooth < 2 then Inl ValueError
                   else (let dcurv_dh = np_gradient_unit curvature_smooth;
                             threshold = np_std dcurv_dh * 1;
                             transition_indices = np_where (\<lambda>d. \<bar>d\<bar> > threshold) dcurv_dh;
                             num_regimes = 1 + int (length transition_indices) div 3
                         in Inr (min num_regimes 3))))"

text \<open>\<^verbatim>\<open>range(0, stop, step)\<close> for a positive step.\<close>

definition py_range_step :: "int \<Rightarrow> int \<Rightarrow> int list" where
  "py_range_step stop step = map (\<lambda>k. int k * step) [0..<nat ((stop + step - 1) div step)]"

definition predict_segment_count_variance :: "real list \<Rightarrow> real list \<Rightarrow> int" where
  "predict_segment_count_variance area heights =
     (if length area < 15 then 1
      else (let window_size = max 4 (int (length area) div 5);
                local_vars =
                  map (\<lambda>i. np_var (py_slice area i (i + window_size)))
                    (py_range_step (int (length area) - window_size) (max 1 (window_size div 2)))
            in if local_vars = [] then 1
               else (let median_var = np_median local_vars;
                         peaks = np_where (\<lambda>v. v > median_var * 1.2) local_vars;
                         num_peaks = int (length peaks);
                         predicted = 1 + num_peaks div 2
                     in min predicted 3)))"

text \<open>
  \<^verbatim>\<open>predict_segment_count\<close>: \<open>int(np.median([pred1, pred2, pred3]))\<close> and the confidence
  entry of the details.
\<close>

definition predict_segment_count ::
  "library \<Rightarrow> real list \<Rightarrow> real list \<Rightarrow> py_error + (int \<times> string)" where
  "predict_segment_count lib area heights =
     (let pred1 = predict_segment_count_zero_crossing area heights
      in case predict_segment_count_curvature_regime lib area heights of
           Inl e \<Rightarrow> Inl e
         | Inr pred2 \<Rightarrow>
             (let pred3 = predict_segment_count_variance area heights;
                  predictions = [pred1, pred2, pred3];
                  predicted = \<lfloor>np_median (map real_of_int predictions)\<rfloor>
              in Inr (predicted,
                      if card (set predictions) = 1 then ''high'' else ''medium'')))"

text \<open>
  One turn of the candidate loop of \<^verbatim>\<open>find_stability_transitions\<close>: the candidate
  \<open>(i, score, jump_magnitude)\<close>, when index \<open>i\<close> qualifies.
\<close>

definition stability_candidate ::
  "real list \<Rightarrow> real list \<Rightarrow> real \<Rightarrow> int \<Rightarrow> int \<Rightarrow> (int \<times> real \<times> real) option" where
  "stability_candidate stability dS_dh threshold n i =
     (let left_stability = np_mean (py_slice stability (max 0 (i - 7)) i);
          right_stability = np_mean (py_slice stability i (min n (i + 7)));
          jump_magnitude = \<bar>right_stability - left_stability\<bar>;
          sustained_change =
            (if i > 12 \<and> i < n - 12 then
               (let left_before = np_mean (py_slice stability (max 0 (i - 12)) (max 0 (i - 7)));
                    right_after = np_mean (py_slice stability (min n (i + 7)) (min n (i + 12)))
                in \<bar>left_before - left_stability\<bar> < jump_magnitude * 0.4
                   \<and> \<bar>right_stability - right_after\<bar> < jump_magnitude * 0.4)
             else True)
      in if jump_magnitude > threshold * 0.6 \<and> \<bar>dS_dh ! nat i\<bar> > threshold * 0.5
            \<and> sustained_change
         then Some (i, jump_magnitude * \<bar>dS_dh ! nat i\<bar>, jump_magnitude)
         else None)"

text \<open>
  The selection loop: candidates in order of falling score, accepted at a spacing of at
  least \<open>spacing\<close> from the last accepted one; the loop breaks at three entries.
\<close>

fun select_transitions :: "int \<Rightarrow> int list \<Rightarrow> (int \<times> real \<times> real) list \<Rightarrow> int list" where
  "select_transitions spacing final [] = final"
| "select_transitions spacing final ((idx, score, magnitude) # rest) =
     (if idx - last final \<ge> spacing then
        (if length (final @ [idx]) \<ge> 3 then final @ [idx]
         else select_transitions spacing (final @ [idx]) rest)
      else select_transitions spacing final rest)"

text \<open>
  \<^verbatim>\<open>find_stability_transitions(area, heights, min_points=12)\<close>. \<open>int(n * 0.15)\<close> is the
  integer part of the exact product. The sort by score is stable and descending.
\<close>

definition find_stability_transitions ::
  "library \<Rightarrow> real list \<Rightarrow> real list \<Rightarrow> int \<Rightarrow> py_error + int list" where
  "find_stability_transitions lib area heights mp =
     (let n = int (length area)
      in if n < 2 * mp then Inr [0, n - 1]
         else
           (case compute_stability_metric lib area heights 5 of
              Inl e \<Rightarrow> Inl e
            | Inr (stability, dS_dh, area_smooth) \<Rightarrow>
                (let threshold0 = np_std dS_dh * 1.5;
                     threshold =
                       (if threshold0 < 1 / 10 ^ 8 then np_max (np_abs dS_dh) * 0.3
                        else threshold0);
                     candidates =
                       List.map_filter (stability_candidate stability dS_dh threshold n)
                         [mp..n - mp - 1];
                     ranked = sort_key (\<lambda>(idx, score, magnitude). - score) candidates;
                     min_transition_spacing = max (mp * 2) \<lfloor>real_of_int n * 0.15\<rfloor>;
                     selected = select_transitions min_transition_spacing [0] ranked;
                     final_transitions =
                       (if last selected \<noteq> n - 1 then selected @ [n - 1] else selected)
                 in Inr (sort (remdups final_transitions)))))"

text \<open>
  \<^verbatim>\<open>compute_area_gradient_stats\<close>: the two entries of the statistics that the validation
  reads, \<open>mean_gradient\<close> and \<open>mean_curvature\<close>; \<open>None\<close> for a segment that is too short.
\<close>

definition compute_area_gradient_stats ::
  "real list \<Rightarrow> real list \<Rightarrow> int \<Rightarrow> int \<Rightarrow> (real \<times> real) option" where
  "compute_area_gradient_stats area heights start stop =
     (if stop - start < 3 then None
      else (let seg_area = py_slice area start (stop + 1);
                seg_heights = py_slice heights start (stop + 1);
                gradient = np_gradient seg_area seg_heights;
                d2A = np_gradient gradient seg_heights
            in Some (np_mean (np_abs gradient), np_mean (np_abs d2A))))"

definition validate_transition :: "real list \<Rightarrow> real list \<Rightarrow> int \<Rightarrow> int \<Rightarrow> bool" where
  "validate_transition area heights transition_idx mp =
     (let n = int (length area)
      in if transition_idx < mp \<or> transition_idx > n - mp - 1 then False
         else
           (let left_start = max 0 (transition_idx - mp);
                left_end = transition_idx;
                right_start = transition_idx;
                right_end = min (n - 1) (transition_idx + mp)
            in case (compute_area_gradient_stats area heights left_start left_end,
                     compute_area_gradient_stats area heights right_start right_end) of
                 (Some (left_grad, left_curve), Some (right_grad, right_curve)) \<Rightarrow>
                   (if left_curve > 0.1 \<or> right_curve > 0.1 then
                      max left_curve right_curve / (min left_curve right_curve + 1 / 10 ^ 8) > 1.5
                    else \<bar>left_grad - right_grad\<bar> > np_mean [left_grad, right_grad] * 0.2)
               | _ \<Rightarrow> False))"

definition validate_all_transitions :: "real list \<Rightarrow> real list \<Rightarrow> int list \<Rightarrow> int list" where
  "validate_all_transitions area heights transitions =
     (let validated =
            hd transitions
              # filter (\<lambda>t. validate_transition area heights t 5)
                  (map (\<lambda>i. transitions ! i) [1..<length transitions - 1])
      in sort (remdups (validated @ [last transitions])))"

text \<open>
  \<^verbatim>\<open>find_optimal_transitions_hybrid\<close>: the transitions (\<open>None\<close> when the caller is to run the
  multi-derivative detector itself) and the name of the method.
\<close>

definition find_optimal_transitions_hybrid ::
  "library \<Rightarrow> real list \<Rightarrow> real list \<Rightarrow> int \<Rightarrow> py_error + (int list option \<times> string)" where
  "find_optimal_transitions_hybrid lib area heights mp =
     (let n = int (length area)
      in if n < 2 * mp then Inr (Some [0, n - 1], ''insufficient_data'')
         else
           (case predict_segment_count lib area heights of
              Inl e \<Rightarrow> Inl e
            | Inr (predicted_segments, confidence) \<Rightarrow>
                if predicted_segments \<le> 2 then Inr (None, ''route_multi_derivative'')
                else
                  (case find_stability_transitions lib area heights mp of
                     Inl e \<Rightarrow> Inl e
                   | Inr transitions \<Rightarrow>
                       Inr (Some (validate_all_transitions area heights transitions),
                            ''stability''))))"

subsection \<open>Volume models and shape fitting\<close>

text \<open>One row of the area table \<^verbatim>\<open>df_areas\<close>, and a fitted segment
  \<open>(start, end, shape, params)\<close>.\<close>

record df_row =
  Height_mm :: real
  Volume_mm3 :: real
  Area :: real

type_synonym segment = "int \<times> int \<times> string \<times> real list"

type_synonym fit_result = "string \<times> real list \<times> real"

definition volume_cylinder :: "real \<Rightarrow> real \<Rightarrow> real" where
  "volume_cylinder h r = pi * r\<^sup>2 * h"

definition volume_frustum :: "real \<Rightarrow> real \<Rightarrow> real \<Rightarrow> real \<Rightarrow> real" where
  "volume_frustum h r1 r2 H =
     (if H = 0 then 0
      else (let r_interpolated = r1 + (r2 - r1) * (h / H)
            in (pi * h / 3) * (r1\<^sup>2 + r_interpolated\<^sup>2 + r1 * r_interpolated)))"

definition volume_cone :: "real \<Rightarrow> real \<Rightarrow> real \<Rightarrow> real" where
  "volume_cone h r_base H =
     (if H = 0 then 0
      else (let r_h = r_base * (h / H) in (pi / 3) * h * r_h\<^sup>2))"

definition volume_sphere_cap :: "real \<Rightarrow> real \<Rightarrow> real" where
  "volume_sphere_cap h R =
     (let h_clamped = min h (2 * R) in (pi * h_clamped\<^sup>2 * (3 * R - h_clamped)) / 3)"

text \<open>
  The error of a fitted model over a segment, in percent of the segment's last volume:
  \<^verbatim>\<open>np.mean(np.abs(model(x - x[0], *popt) + y[0] - y)) / (y[-1] + 1e-6) * 100\<close>.
\<close>

definition fit_error_pct :: "(real \<Rightarrow> real) \<Rightarrow> real list \<Rightarrow> real list \<Rightarrow> real" where
  "fit_error_pct model x y =
     np_mean (map (\<lambda>(xi, yi). \<bar>model (xi - hd x) + hd y - yi\<bar>) (zip x y))
       / (last y + 1 / 10 ^ 6) * 100"

text \<open>The mean absolute residual alone, which the top-level module compares.\<close>

definition fit_error :: "(real \<Rightarrow> real) \<Rightarrow> real list \<Rightarrow> real list \<Rightarrow> real" where
  "fit_error model x y =
     np_mean (map (\<lambda>(xi, yi). \<bar>model (xi - hd x) + hd y - yi\<bar>) (zip x y))"

text \<open>
  The four fit attempts of one segment. Each stands in a \<^verbatim>\<open>try\<close> of its own: an
  exception of the solver, an index out of range or a result of the wrong arity drops the
  candidate (\<open>None\<close>).
\<close>

definition fit_cylinder ::
  "analysis_params \<Rightarrow> library \<Rightarrow> real list \<Rightarrow> real list \<Rightarrow> real \<Rightarrow> fit_result option" where
  "fit_cylinder params lib x y guess_r =
     (let bounds_lower = fit_bounds_lower GEOMETRIC_CONSTRAINTS * guess_r;
          bounds_upper = fit_bounds_upper GEOMETRIC_CONSTRAINTS * guess_r
      in case curve_fit lib ''cylinder'' (map (\<lambda>xi. xi - hd x) x) (map (\<lambda>yi. yi - hd y) y)
                [guess_r] [bounds_lower] [bounds_upper] (maxfev params) of
           Some [r] \<Rightarrow> Some (''cylinder'', [r], fit_error_pct (\<lambda>h. volume_cylinder h r) x y)
         | _ \<Rightarrow> None)"

definition fit_frustum ::
  "analysis_params \<Rightarrow> library \<Rightarrow> real list \<Rightarrow> real list \<Rightarrow> real list \<Rightarrow> int \<Rightarrow> int \<Rightarrow> real
     \<Rightarrow> real \<Rightarrow> fit_result option" where
  "fit_frustum params lib x y area start stop mean_area height_span =
     (case (if start < int (length area) then py_index area start else Inr mean_area,
            py_index area (min stop (int (length area) - 1))) of
        (Inr area_start, Inr area_end) \<Rightarrow>
          (let r1_guess = sqrt (area_start / pi);
               r2_guess = sqrt (area_end / pi);
               lower = [fit_bounds_lower GEOMETRIC_CONSTRAINTS * r1_guess,
                        fit_bounds_lower GEOMETRIC_CONSTRAINTS * r2_guess, 0.8 * height_span];
               upper = [fit_bounds_upper GEOMETRIC_CONSTRAINTS * r1_guess,
                        fit_bounds_upper GEOMETRIC_CONSTRAINTS * r2_guess, 1.2 * height_span]
           in case curve_fit lib ''frustum'' (map (\<lambda>xi. xi - hd x) x) (map (\<lambda>yi. yi - hd y) y)
                     [r1_guess, r2_guess, height_span] lower upper (maxfev params) of
                Some [r1, r2, H] \<Rightarrow>
                  Some (''frustum'', [r1, r2, H], fit_error_pct (\<lambda>h. volume_frustum h r1 r2 H) x y)
              | _ \<Rightarrow> None)
      | _ \<Rightarrow> None)"

definition fit_cone ::
  "analysis_params \<Rightarrow> library \<Rightarrow> real list \<Rightarrow> real list \<Rightarrow> real list \<Rightarrow> int \<Rightarrow> real
     \<Rightarrow> fit_result option" where
  "fit_cone params lib x y area stop height_span =
     (case py_index area (min stop (int (length area) - 1)) of
        Inr area_end \<Rightarrow>
          (let r_base_guess = sqrt (area_end / pi)
           in case curve_fit lib ''cone'' (map (\<lambda>xi. xi - hd x) x) (map (\<lambda>yi. yi - hd y) y)
                     [r_base_guess, height_span]
                     [0.1 * r_base_guess, 0.5 * height_span]
                     [5 * r_base_guess, 2 * height_span] (maxfev params) of
                Some [r_base, H] \<Rightarrow>
                  Some (''cone'', [r_base, H], fit_error_pct (\<lambda>h. volume_cone h r_base H) x y)
              | _ \<Rightarrow> None)
      | Inl e \<Rightarrow> None)"

definition fit_sphere_cap ::
  "analysis_params \<Rightarrow> library \<Rightarrow> real list \<Rightarrow> real list \<Rightarrow> real list \<Rightarrow> int \<Rightarrow> int
     \<Rightarrow> fit_result option" where
  "fit_sphere_cap params lib x y area start stop =
     (let seg = py_slice area start (min (stop + 1) (int (length area)))
      in if seg = [] then None
         else (let max_area = np_max seg;
                   r_max = sqrt (max_area / pi);
                   R_guess = 1.5 * r_max
               in case curve_fit lib ''sphere_cap'' (map (\<lambda>xi. xi - hd x) x)
                         (map (\<lambda>yi. yi - hd y) y) [R_guess] [0.5 * R_guess] [10 * R_guess]
                         (maxfev params) of
                    Some [R] \<Rightarrow>
                      Some (''sphere_cap'', [R], fit_error_pct (\<lambda>h. volume_sphere_cap h R) x y)
                  | _ \<Rightarrow> None))"

text \<open>The list \<^verbatim>\<open>fit_results\<close>: the surviving candidates, in the order of the attempts.\<close>

definition fit_results ::
  "analysis_params \<Rightarrow> library \<Rightarrow> real list \<Rightarrow> real list \<Rightarrow> real list \<Rightarrow> int \<Rightarrow> int \<Rightarrow> real
     \<Rightarrow> real \<Rightarrow> real \<Rightarrow> fit_result list" where
  "fit_results params lib x y area start stop mean_area guess_r height_span =
     List.map_filter id
       [fit_cylinder params lib x y guess_r,
        fit_frustum params lib x y area start stop mean_area height_span,
        fit_cone params lib x y area stop height_span,
        fit_sphere_cap params lib x y area start stop]"

text \<open>The complexity penalty, and the stable sort by the adjusted error.\<close>

definition adjusted_error :: "fit_result \<Rightarrow> real" where
  "adjusted_error f =
     (case f of (shape_name, ps, error_pct) \<Rightarrow>
        if shape_name = ''frustum'' \<and> error_pct < 3 then error_pct + 0.5
        else if shape_name = ''cone'' \<and> error_pct < 3 then error_pct + 0.2
        else error_pct)"

definition best_adjusted :: "fit_result list \<Rightarrow> fit_result" where
  "best_adjusted results = hd (sort_key adjusted_error results)"

text \<open>
  The cylinder preference: a selected frustum whose radii differ by less than 5 percent of
  the larger one gives way to the cylinder candidate when that one's error is at most 1.2
  times the frustum's, and to a cylinder of the mean radius when there is no cylinder
  candidate.
\<close>

definition cylinder_preference :: "fit_result list \<Rightarrow> fit_result \<Rightarrow> fit_result" where
  "cylinder_preference results best =
     (case best of (best_shape, best_params, best_error) \<Rightarrow>
        if best_shape = ''frustum'' \<and> length best_params \<ge> 2 then
          (let r1 = best_params ! 0; r2 = best_params ! 1;
               r_max = max r1 r2
           in if r_max > 0 \<and> \<bar>r2 - r1\<bar> / r_max < 0.05 then
                (case filter (\<lambda>f. fst f = ''cylinder'') results of
                   (cyl_shape, cyl_params, cyl_error) # _ \<Rightarrow>
                     if cyl_error \<le> best_error * 1.2 then (''cylinder'', cyl_params, cyl_error)
                     else best
                 | [] \<Rightarrow> (''cylinder'', [(r1 + r2) / 2], best_error))
              else best)
        else best)"

definition select_best_fit :: "fit_result list \<Rightarrow> fit_result" where
  "select_best_fit results = cylinder_preference results (best_adjusted results)"

text \<open>
  One turn of the fitting loop, for the segment between \<open>start\<close> and \<open>stop\<close>:
  \<^verbatim>\<open>x[0]\<close> and \<^verbatim>\<open>x[-1]\<close> raise on an empty slice; with no surviving candidate the
  fallback is a cylinder of the guessed radius with error 0.
\<close>

definition fit_segment ::
  "analysis_params \<Rightarrow> library \<Rightarrow> df_row list \<Rightarrow> int \<Rightarrow> int \<Rightarrow> py_error + (segment \<times> real)" where
  "fit_segment params lib df_areas start stop =
     (let area = map Area df_areas;
          x = py_slice (map Height_mm df_areas) start (stop + 1);
          y = py_slice (map Volume_mm3 df_areas) start (stop + 1)
      in if x = [] then Inl IndexError
         else
           (let height_span = last x - hd x;
                mean_area = np_median (py_slice area start (stop + 1));
                guess_r = sqrt (mean_area / pi);
                results = fit_results params lib x y area start stop mean_area guess_r height_span
            in if results \<noteq> [] then
                 (case select_best_fit results of
                    (best_shape, best_params, best_error) \<Rightarrow>
                      Inr ((start, stop, best_shape, best_params), best_error))
               else Inr ((start, stop, ''cylinder'', [guess_r]), 0)))"

text \<open>
  The fitting loop over the consecutive pairs of transitions; a pair that spans fewer than
  \<open>min_points\<close> points is skipped.
\<close>

fun fit_loop ::
  "analysis_params \<Rightarrow> library \<Rightarrow> df_row list \<Rightarrow> (int \<times> int) list
     \<Rightarrow> py_error + (segment \<times> real) list" where
  "fit_loop params lib df_areas [] = Inr []"
| "fit_loop params lib df_areas ((start, stop) # pairs) =
     (if stop - start + 1 < min_points params then fit_loop params lib df_areas pairs
      else (case fit_segment params lib df_areas start stop of
              Inl e \<Rightarrow> Inl e
            | Inr fitted \<Rightarrow>
                (case fit_loop params lib df_areas pairs of
                   Inl e \<Rightarrow> Inl e
                 | Inr others \<Rightarrow> Inr (fitted # others))))"

subsection \<open>Segment merging\<close>

text \<open>
  The test of the inner \<^verbatim>\<open>while\<close> loop: the merged segment when the next segment is
  absorbed, \<open>None\<close> where the loop breaks.
\<close>

definition relative_radius_diff :: "real \<Rightarrow> real \<Rightarrow> real" where
  "relative_radius_diff a b = \<bar>a - b\<bar> / (max a b + 1 / 10 ^ 6)"

definition try_merge :: "segment \<Rightarrow> segment \<Rightarrow> segment option" where
  "try_merge current nxt =
     (case (current, nxt) of
        ((current_start, current_end, current_shape, current_params),
         (next_start, next_end, next_shape, next_params)) \<Rightarrow>
          if next_shape \<noteq> current_shape \<or> next_start > current_end + 1 then None
          else if current_shape = ''sphere_cap'' \<or> next_shape = ''sphere_cap'' then None
          else if current_shape = ''frustum'' \<and> length current_params \<ge> 2
                  \<and> length next_params \<ge> 2 then
            (if relative_radius_diff (current_params ! 1) (next_params ! 0) < 0.1 then
               Some (current_start, next_end, current_shape,
                     [current_params ! 0, next_params ! 1, real_of_int (next_end - current_start)])
             else None)
          else if current_shape = ''cylinder'' \<and> length current_params \<ge> 1
                  \<and> length next_params \<ge> 1 then
            (if relative_radius_diff (current_params ! 0) (next_params ! 0) < 0.05 then
               Some (current_start, next_end, current_shape, current_params)
             else None)
          else if current_shape = ''cone'' \<and> length current_params \<ge> 1
                  \<and> length next_params \<ge> 1 then
            (if relative_radius_diff (current_params ! 0) (next_params ! 0) < 0.1 then
               Some (current_start, next_end, current_shape, current_params)
             else None)
          else None)"

text \<open>
  The merging pass. The outer loop takes the next segment that no run has absorbed (the
  set \<^verbatim>\<open>skip_indices\<close> holds exactly the absorbed ones, which follow their run's first
  segment directly); the inner loop absorbs followers while \<open>try_merge\<close> succeeds.
\<close>

fun merge_run :: "segment \<Rightarrow> segment list \<Rightarrow> segment list" where
  "merge_run current [] = [current]"
| "merge_run current (nxt # rest) =
     (case try_merge current nxt of
        Some merged \<Rightarrow> merge_run merged rest
      | None \<Rightarrow> current # merge_run nxt rest)"

definition merge_segments :: "segment list \<Rightarrow> segment list" where
  "merge_segments segments = (case segments of [] \<Rightarrow> [] | s # rest \<Rightarrow> merge_run s rest)"

subsection \<open>The segmentation and fitting stage\<close>

text \<open>
  The job tracker \<^verbatim>\<open>AnalysisJob\<close>, with the entries this stage writes: the completed steps
  (name, time stamp, duration), the warnings (message, time stamp) and the statistics.
\<close>

record analysis_job =
  steps_completed :: "(string \<times> real \<times> real) list"
  warnings :: "(string \<times> real) list"
  stat_segments_count :: int
  stat_fit_errors :: "real list"
  stat_avg_fit_error :: real
  stat_max_fit_error :: real

text \<open>The transitions of the configured detector.\<close>

definition detect_transitions ::
  "analysis_params \<Rightarrow> library \<Rightarrow> df_row list \<Rightarrow> py_error + int list" where
  "detect_transitions params lib df_areas =
     (let area = map Area df_areas; heights = map Height_mm df_areas
      in if transition_detection_method params = ''improved'' then
           find_optimal_transitions_improved lib area (Some heights) (min_points params)
             (use_adaptive_threshold params)
         else Inr (find_optimal_transitions lib area (min_points params) (percentile params)
                     (variance_threshold params)))"

text \<open>The numerical part of the stage: the merged segments and the list \<^verbatim>\<open>fit_errors\<close>.\<close>

definition segment_and_fit ::
  "analysis_params \<Rightarrow> library \<Rightarrow> df_row list \<Rightarrow> py_error + (segment list \<times> real list)" where
  "segment_and_fit params lib df_areas =
     (case detect_transitions params lib df_areas of
        Inl e \<Rightarrow> Inl e
      | Inr transitions \<Rightarrow>
          (case fit_loop params lib df_areas (zip transitions (tl transitions)) of
             Inl e \<Rightarrow> Inl e
           | Inr fitted \<Rightarrow> Inr (merge_segments (map fst fitted), map snd fitted)))"

text \<open>
  What a call finds outside its arguments: the contents of the dictionary
  \<^verbatim>\<open>DEFAULT_PARAMS\<close> at the time of the call, and the clock, given by its successive
  readings and the number of readings taken so far. No statement of the module assigns to
  \<^verbatim>\<open>DEFAULT_PARAMS\<close> or to one of its keys, so all the reads of one call see the same
  contents; the test scripts and any other importer can assign to it between two calls. The
  records of the logger and \<^verbatim>\<open>warnings.warn\<close> are written and never read; they are left
  out.
\<close>

record world =
  config :: analysis_params
  clock :: "nat \<Rightarrow> real"
  ticks :: nat

text \<open>\<^verbatim>\<open>time.time()\<close> and \<^verbatim>\<open>datetime.now()\<close>: the next reading of the clock.\<close>

definition read_clock :: "world \<Rightarrow> real \<times> world" where
  "read_clock w = (clock w (ticks w), w\<lparr>ticks := Suc (ticks w)\<rparr>)"

text \<open>The methods \<^verbatim>\<open>add_warning\<close> and \<^verbatim>\<open>complete_step\<close> of the job tracker.\<close>

definition add_warning :: "string \<Rightarrow> analysis_job \<Rightarrow> world \<Rightarrow> analysis_job \<times> world" where
  "add_warning warning j w =
     (let (now, w') = read_clock w
      in (j\<lparr>warnings := warnings j @ [(warning, now)]\<rparr>, w'))"

definition complete_step ::
  "string \<Rightarrow> real \<Rightarrow> analysis_job \<Rightarrow> world \<Rightarrow> analysis_job \<times> world" where
  "complete_step step_name duration j w =
     (let (now, w') = read_clock w
      in (j\<lparr>steps_completed := steps_completed j @ [(step_name, now, duration)]\<rparr>, w'))"


subsection \<open>Hermite spline transition\<close>

definition h00 :: "real \<Rightarrow> real" where
  "h00 t = 2 * t ^ 3 - 3 * t\<^sup>2 + 1"

definition h10 :: "real \<Rightarrow> real" where
  "h10 t = - 2 * t ^ 3 + 3 * t\<^sup>2"

definition h01 :: "real \<Rightarrow> real" where
  "h01 t = t ^ 3 * (t - 1)"

definition h11 :: "real \<Rightarrow> real" where
  "h11 t = t\<^sup>2 * (t - 1)"

text \<open>
  \<^verbatim>\<open>hermite_spline_transition(z1, r1, slope1, z2, r2, slope2, num_points=25, tension=0.6)\<close>.
  \<^verbatim>\<open>np.linspace\<close> raises \<open>ValueError\<close> on a negative count, and the two end assignments
  \<^verbatim>\<open>r_trans[0] = r1\<close>, \<^verbatim>\<open>r_trans[-1] = r2\<close> raise \<open>IndexError\<close> on an empty array.
\<close>

definition hermite_spline_transition ::
  "real \<Rightarrow> real \<Rightarrow> real \<Rightarrow> real \<Rightarrow> real \<Rightarrow> real \<Rightarrow> int \<Rightarrow> real
     \<Rightarrow> py_error + (real list \<times> real list)" where
  "hermite_spline_transition z1 r1 slope1 z2 r2 slope2 num_points tension =
     (let dz = z2 - z1 in
      if num_points < 0 then Inl ValueError
      else if dz \<le> 0 then
        Inr (np_linspace z1 z2 (nat num_points), replicate (nat num_points) ((r1 + r2) / 2))
      else
        (let t = np_linspace 0 1 (nat num_points);
             z_trans = map (\<lambda>ti. z1 + ti * dz) t;
             m0 = slope1 * dz * tension;
             m1 = slope2 * dz * tension;
             r_trans = map (\<lambda>ti. h00 ti * r1 + h10 ti * r2 + h01 ti * m0 + h11 ti * m1) t;
             r_min = min r1 r2 * radius_safety_margin GEOMETRIC_CONSTRAINTS;
             r_max = max r1 r2 * 1.2;
             r_clip = map (\<lambda>r. np_clip r r_min r_max) r_trans
         in if r_clip = [] then Inl IndexError
            else Inr (z_trans, (r_clip[0 := r1])[length r_clip - 1 := r2])))"

subsection \<open>Profile reconstruction\<close>

text \<open>
  The analytic radius curve of one segment: \<open>None\<close> where the loop continues (no height
  span), else the heights, the radii and the slope at the end. Unpacking
  \<^verbatim>\<open>r1, r2, _ = ...\<close> or \<^verbatim>\<open>r_base, H = ...\<close> from a parameter list of another length
  raises \<open>ValueError\<close>; the Python division \<^verbatim>\<open>r_base / H\<close> raises on \<open>H = 0\<close>.
\<close>

definition segment_profile ::
  "df_row list \<Rightarrow> segment \<Rightarrow> py_error + (real list \<times> real list \<times> real) option" where
  "segment_profile df_areas seg =
     (case seg of (start, stop, shape, ps) \<Rightarrow>
        (case (py_index df_areas start, py_index df_areas stop) of
           (Inl e, _) \<Rightarrow> Inl e
         | (_, Inl e) \<Rightarrow> Inl e
         | (Inr row_start, Inr row_end) \<Rightarrow>
             (let h_start = Height_mm row_start;
                  h_span = Height_mm row_end - h_start
              in if h_span \<le> 0 then Inr None
                 else
                   (let num_points = max 15 (min 30 (stop - start + 1));
                        h_rel = np_linspace 0 h_span (nat num_points);
                        z_seg = map (\<lambda>h. h_start + h) h_rel
                    in if shape = ''cylinder'' \<and> length ps = 1 then
                         Inr (Some (z_seg, map (\<lambda>h. ps ! 0) h_rel, 0))
                       else if shape = ''frustum'' \<and> length ps \<ge> 3 then
                         (case ps of
                            [r1, r2, H] \<Rightarrow>
                              Inr (Some (z_seg, map (\<lambda>h. r1 + (r2 - r1) * (h / h_span)) h_rel,
                                         (r2 - r1) / h_span))
                          | _ \<Rightarrow> Inl ValueError)
                       else if shape = ''cone'' \<and> length ps \<ge> 2 then
                         (case ps of
                            [r_base, H] \<Rightarrow>
                              if H = 0 then Inl ZeroDivisionError
                              else Inr (Some (z_seg, map (\<lambda>h. r_base * (h / H)) h_rel, r_base / H))
                          | _ \<Rightarrow> Inl ValueError)
                       else if shape = ''sphere_cap'' \<and> length ps \<ge> 1 then
                         (let R = ps ! 0;
                              r_seg = map (\<lambda>h. sqrt (max (2 * R * h - h\<^sup>2) 0.01)) h_rel;
                              h_end_rel = last h_rel;
                              r_end_val = last r_seg
                          in Inr (Some (z_seg, r_seg,
                                        if r_end_val > 0.01 then (R - h_end_rel) / r_end_val
                                        else 0)))
                       else
                         (case py_index df_areas (min stop (int (length df_areas) - 1)) of
                            Inl e \<Rightarrow> Inl e
                          | Inr row_last \<Rightarrow>
                              (let r_start = sqrt (Area row_start / pi);
                                   r_end = sqrt (Area row_last / pi)
                               in Inr (Some (z_seg,
                                             map (\<lambda>h. r_start + (r_end - r_start) * (h / h_span)) h_rel,
                                             (r_end - r_start) / h_span))))))))"

text \<open>
  Where the next segment starts: its first height, its start radius and its start slope.
\<close>

definition next_segment_start ::
  "df_row list \<Rightarrow> segment \<Rightarrow> py_error + (real \<times> real \<times> real)" where
  "next_segment_start df_areas seg =
     (case seg of (next_start, next_end, next_shape, next_params) \<Rightarrow>
        (case py_index df_areas next_start of
           Inl e \<Rightarrow> Inl e
         | Inr row_start \<Rightarrow>
             (let next_h_start = Height_mm row_start
              in if next_shape = ''cylinder'' \<and> length next_params = 1 then
                   Inr (next_h_start, next_params ! 0, 0)
                 else if next_shape = ''frustum'' \<and> length next_params \<ge> 3 then
                   (case py_index df_areas next_end of
                      Inl e \<Rightarrow> Inl e
                    | Inr row_end \<Rightarrow>
                        (let next_h_span = Height_mm row_end - Height_mm row_start
                         in Inr (next_h_start, next_params ! 0,
                                 if next_h_span > 0
                                 then (next_params ! 1 - next_params ! 0) / next_h_span
                                 else 0)))
                 else if next_shape = ''cone'' \<and> length next_params \<ge> 2 then
                   (case next_params of
                      [r_base, H] \<Rightarrow> Inr (next_h_start, 0.01, if H > 0 then r_base / H else 0)
                    | _ \<Rightarrow> Inl ValueError)
                 else if next_shape = ''sphere_cap'' \<and> length next_params \<ge> 1 then
                   (let R = next_params ! 0;
                        h_small = 0.1;
                        next_r_start = sqrt (max (2 * R * h_small - h_small\<^sup>2) 0.01)
                    in Inr (next_h_start, next_r_start,
                            if next_r_start > 0 then (R - h_small) / next_r_start else 0))
                 else Inr (next_h_start, sqrt (Area row_start / pi), 0))))"

text \<open>
  The loop over the segments: the points \<open>(z, r)\<close> appended to \<^verbatim>\<open>full_z\<close> and
  \<^verbatim>\<open>full_r\<close>, each segment's curve followed by the interior of the transition arc to the
  next segment.
\<close>

fun profile_loop :: "df_row list \<Rightarrow> real \<Rightarrow> segment list \<Rightarrow> py_error + (real \<times> real) list" where
  "profile_loop df_areas tension [] = Inr []"
| "profile_loop df_areas tension (seg # rest) =
     (case segment_profile df_areas seg of
        Inl e \<Rightarrow> Inl e
      | Inr None \<Rightarrow> profile_loop df_areas tension rest
      | Inr (Some (z_seg, r_seg, slope_end)) \<Rightarrow>
          (case rest of
             [] \<Rightarrow> Inr (zip z_seg r_seg)
           | nxt # _ \<Rightarrow>
               (case next_segment_start df_areas nxt of
                  Inl e \<Rightarrow> Inl e
                | Inr (next_h_start, next_r_start, next_slope) \<Rightarrow>
                    (case hermite_spline_transition (last z_seg) (last r_seg) slope_end
                            next_h_start next_r_start next_slope 25 tension of
                       Inl e \<Rightarrow> Inl e
                     | Inr (z_trans, r_trans) \<Rightarrow>
                         (case profile_loop df_areas tension rest of
                            Inl e \<Rightarrow> Inl e
                          | Inr points \<Rightarrow>
                              Inr (zip z_seg r_seg
                                   @ zip (py_slice z_trans 1 (- 1)) (py_slice r_trans 1 (- 1))
                                   @ points))))))"

text \<open>\<^verbatim>\<open>drop_duplicates('z')\<close>: the first row of each height is kept.\<close>

fun drop_duplicates :: "real list \<Rightarrow> (real \<times> real) list \<Rightarrow> (real \<times> real) list" where
  "drop_duplicates seen [] = []"
| "drop_duplicates seen ((z, r) # rows) =
     (if z \<in> set seen then drop_duplicates seen rows
      else (z, r) # drop_duplicates (z # seen) rows)"

text \<open>The radii computed directly from the areas: \<open>sqrt(max(area / pi, 0.01))\<close>.\<close>

definition direct_profile :: "df_row list \<Rightarrow> real list \<times> real list" where
  "direct_profile df_areas =
     (map Height_mm df_areas, map (\<lambda>row. sqrt (max (Area row / pi) 0.01)) df_areas)"

text \<open>
  \<^verbatim>\<open>create_enhanced_profile(segments, df_areas, ..., hermite_tension=0.6)\<close>: the direct
  profile for at most one segment; else the blended points without duplicate heights, sorted
  by height, the radii smoothed and floored at 0.1.
\<close>

definition create_enhanced_profile ::
  "library \<Rightarrow> segment list \<Rightarrow> df_row list \<Rightarrow> real \<Rightarrow> py_error + (real list \<times> real list)" where
  "create_enhanced_profile lib segments df_areas tension =
     (if length segments \<le> 1 then Inr (direct_profile df_areas)
      else
        (case profile_loop df_areas tension segments of
           Inl e \<Rightarrow> Inl e
         | Inr full \<Rightarrow>
             if length full > 1 then
               (let profile_df = sort_key fst (drop_duplicates [] full);
                    r_final = gaussian_filter1d lib (map snd profile_df) 0.8 ''nearest''
                in Inr (map fst profile_df, map (\<lambda>r. max r 0.1) r_final))
             else Inr (direct_profile df_areas)))"

subsection \<open>The fitting stage of the top-level module\<close>

text \<open>
  The two fit attempts of one segment in the top-level module (and in version 3.11.0), each
  in a \<^verbatim>\<open>try\<close> of its own. A fit that returned is \<open>(parameters, error, error in percent)\<close>;
  an exception leaves \<^verbatim>\<open>popt = None\<close>, here \<open>None\<close>. The start and end areas of the frustum
  guess are read from the table only inside the table's range, and are the median area at
  its two ends.
\<close>

definition fit_cylinder_root ::
  "analysis_params \<Rightarrow> library \<Rightarrow> real list \<Rightarrow> real list \<Rightarrow> real
     \<Rightarrow> (real \<times> real \<times> real) option" where
  "fit_cylinder_root params lib x y guess_r =
     (let bounds_lower = fit_bounds_lower GEOMETRIC_CONSTRAINTS * guess_r;
          bounds_upper = fit_bounds_upper GEOMETRIC_CONSTRAINTS * guess_r
      in case curve_fit lib ''cylinder'' (map (\<lambda>xi. xi - hd x) x) (map (\<lambda>yi. yi - hd y) y)
                [guess_r] [bounds_lower] [bounds_upper] (maxfev params) of
           Some [r] \<Rightarrow>
             (let cyl_error = fit_error (\<lambda>h. volume_cylinder h r) x y
              in Some (r, cyl_error, cyl_error / (last y + 1 / 10 ^ 6) * 100))
         | _ \<Rightarrow> None)"

definition fit_frustum_root ::
  "analysis_params \<Rightarrow> library \<Rightarrow> real list \<Rightarrow> real list \<Rightarrow> real list \<Rightarrow> int \<Rightarrow> int \<Rightarrow> real
     \<Rightarrow> real \<Rightarrow> (real list \<times> real \<times> real) option" where
  "fit_frustum_root params lib x y area start stop mean_area height_span =
     (case (if start > 0 then py_index area start else Inr mean_area,
            if stop < int (length area) - 1 then py_index area stop else Inr mean_area) of
        (Inr area_start, Inr area_end) \<Rightarrow>
          (let r1_guess = sqrt (area_start / pi);
               r2_guess = sqrt (area_end / pi);
               lower = [fit_bounds_lower GEOMETRIC_CONSTRAINTS * r1_guess,
                        fit_bounds_lower GEOMETRIC_CONSTRAINTS * r2_guess, 0.8 * height_span];
               upper = [fit_bounds_upper GEOMETRIC_CONSTRAINTS * r1_guess,
                        fit_bounds_upper GEOMETRIC_CONSTRAINTS * r2_guess, 1.2 * height_span]
           in case curve_fit lib ''frustum'' (map (\<lambda>xi. xi - hd x) x) (map (\<lambda>yi. yi - hd y) y)
                     [r1_guess, r2_guess, height_span] lower upper (maxfev params) of
                Some [r1, r2, H] \<Rightarrow>
                  (let frust_error = fit_error (\<lambda>h. volume_frustum h r1 r2 H) x y
                   in Some ([r1, r2, H], frust_error, frust_error / (last y + 1 / 10 ^ 6) * 100))
              | _ \<Rightarrow> None)
      | _ \<Rightarrow> None)"

text \<open>
  The selection: the cylinder when its fit returned and either the frustum's did not or the
  cylinder's mean absolute error is the smaller one; else the frustum when its fit returned;
  else a cylinder of the guessed radius with error 0.
\<close>

definition select_fit_two_models ::
  "(real \<times> real \<times> real) option \<Rightarrow> (real list \<times> real \<times> real) option \<Rightarrow> real \<Rightarrow> fit_result" where
  "select_fit_two_models cyl frust guess_r =
     (case cyl of
        Some (r, cyl_error, cyl_error_pct) \<Rightarrow>
          (case frust of
             None \<Rightarrow> (''cylinder'', [r], cyl_error_pct)
           | Some (popt_frust, frust_error, frust_error_pct) \<Rightarrow>
               if cyl_error < frust_error then (''cylinder'', [r], cyl_error_pct)
               else (''frustum'', popt_frust, frust_error_pct))
      | None \<Rightarrow>
          (case frust of
             Some (popt_frust, frust_error, frust_error_pct) \<Rightarrow>
               (''frustum'', popt_frust, frust_error_pct)
           | None \<Rightarrow> (''cylinder'', [guess_r], 0)))"

text \<open>One turn of the fitting loop, and the loop with its guard on short spans.\<close>

definition fit_segment_root ::
  "analysis_params \<Rightarrow> library \<Rightarrow> df_row list \<Rightarrow> int \<Rightarrow> int \<Rightarrow> py_error + (segment \<times> real)" where
  "fit_segment_root params lib df_areas start stop =
     (let area = map Area df_areas;
          x = py_slice (map Height_mm df_areas) start (stop + 1);
          y = py_slice (map Volume_mm3 df_areas) start (stop + 1)
      in if x = [] then Inl IndexError
         else
           (let height_span = last x - hd x;
                mean_area = np_median (py_slice area start (stop + 1));
                guess_r = sqrt (mean_area / pi)
            in case select_fit_two_models
                      (fit_cylinder_root params lib x y guess_r)
                      (fit_frustum_root params lib x y area start stop mean_area height_span)
                      guess_r of
                 (shape, ps, error_pct) \<Rightarrow> Inr ((start, stop, shape, ps), error_pct)))"

fun fit_loop_root ::
  "analysis_params \<Rightarrow> library \<Rightarrow> df_row list \<Rightarrow> (int \<times> int) list
     \<Rightarrow> py_error + (segment \<times> real) list" where
  "fit_loop_root params lib df_areas [] = Inr []"
| "fit_loop_root params lib df_areas ((start, stop) # pairs) =
     (if stop - start + 1 < min_points params then fit_loop_root params lib df_areas pairs
      else (case fit_segment_root params lib df_areas start stop of
              Inl e \<Rightarrow> Inl e
            | Inr fitted \<Rightarrow>
                (case fit_loop_root params lib df_areas pairs of
                   Inl e \<Rightarrow> Inl e
                 | Inr others \<Rightarrow> Inr (fitted # others))))"

text \<open>
  The legacy detector of the top-level module: a first or last candidate segment is kept
  whatever its variation, and at the end the last validated entry is overwritten with the
  final index. The stage calls it with its default arguments.
\<close>

definition segment_kept_legacy_root ::
  "real list \<Rightarrow> int \<Rightarrow> real \<Rightarrow> int list \<Rightarrow> nat \<Rightarrow> bool" where
  "segment_kept_legacy_root area mp var_threshold transitions i =
     (let seg_start = transitions ! i; seg_end = transitions ! (i + 1)
      in seg_end - seg_start + 1 \<ge> mp
         \<and> (let seg = py_slice area seg_start seg_end
            in np_std seg / (np_mean seg + 1 / 10 ^ 8) > var_threshold
               \<or> i = 0 \<or> int i = int (length transitions) - 2))"

definition find_optimal_transitions_root ::
  "library \<Rightarrow> real list \<Rightarrow> int \<Rightarrow> real \<Rightarrow> real \<Rightarrow> int list" where
  "find_optimal_transitions_root lib area mp pct var_threshold =
     (let n = int (length area)
      in if n < 2 * mp then [0, n - 1]
         else
           (let window = smoothing_window n;
                area_smooth =
                  (case savgol_filter lib area window (min 2 (window div 2)) of
                     Some s \<Rightarrow> s
                   | None \<Rightarrow> rolling_median lib area window);
                diff = np_abs (np_diff area_smooth);
                threshold = np_percentile diff pct;
                candidates = map (\<lambda>c. c + 1) (np_where (\<lambda>d. d > threshold) diff);
                accepted = 0 # accept_candidates_legacy mp 0 candidates;
                transitions = (if last accepted \<noteq> n - 1 then accepted @ [n - 1] else accepted);
                validated =
                  0 # map (\<lambda>i. transitions ! (i + 1))
                        (filter (segment_kept_legacy_root area mp var_threshold transitions)
                           [0..<length transitions - 1]);
                validated' =
                  (if last validated \<noteq> n - 1 then butlast validated @ [n - 1] else validated)
            in sort (remdups validated')))"

text \<open>
  The improved detector of the top-level module differs from the revision's in the
  percentile without adaptive threshold alone: 80 instead of 96.
\<close>

definition improved_percentile_root :: "library \<Rightarrow> real list \<Rightarrow> bool \<Rightarrow> py_error + real" where
  "improved_percentile_root lib area use_adaptive =
     (if use_adaptive then
        (case estimate_snr lib area of
           Inl e \<Rightarrow> Inl e
         | Inr snr \<Rightarrow> Inr (adaptive_percentile snr))
      else Inr 80)"

definition find_optimal_transitions_improved_root ::
  "library \<Rightarrow> real list \<Rightarrow> real list option \<Rightarrow> int \<Rightarrow> bool \<Rightarrow> py_error + int list" where
  "find_optimal_transitions_improved_root lib area heights_arg mp use_adaptive =
     (let n = int (length area);
          heights = (case heights_arg of None \<Rightarrow> np_arange (length area) | Some h \<Rightarrow> h)
      in if n < 2 * mp then Inr [0, n - 1]
         else if n < 2 then Inl ValueError
         else
           (let score = improved_score lib area heights
            in case improved_percentile_root lib area use_adaptive of
                 Inl e \<Rightarrow> Inl e
               | Inr pct \<Rightarrow>
                   Inr (transitions_at_threshold lib area mp score (np_percentile score pct))))"

text \<open>The dictionary \<^verbatim>\<open>DEFAULT_PARAMS\<close> as the top-level module defines it.\<close>

definition DEFAULT_PARAMS_root :: analysis_params where
  "DEFAULT_PARAMS_root =
     \<lparr> min_points = 12, percentile = 80, variance_threshold = 0.15, hermite_tension = 0.6,
       maxfev = 4000, transition_detection_method = ''improved'',
       use_adaptive_threshold = True \<rparr>"

definition detect_transitions_root ::
  "analysis_params \<Rightarrow> library \<Rightarrow> df_row list \<Rightarrow> py_error + int list" where
  "detect_transitions_root params lib df_areas =
     (let area = map Area df_areas; heights = map Height_mm df_areas
      in if transition_detection_method params = ''improved'' then
           find_optimal_transitions_improved_root lib area (Some heights) (min_points params)
             (use_adaptive_threshold params)
         else Inr (find_optimal_transitions_root lib area 12 80 0.15))"

text \<open>The numerical part of the stage: the segments and the list \<^verbatim>\<open>fit_errors\<close>.\<close>

definition segment_and_fit_root ::
  "analysis_params \<Rightarrow> library \<Rightarrow> df_row list \<Rightarrow> py_error + (segment list \<times> real list)" where
  "segment_and_fit_root params lib df_areas =
     (case detect_transitions_root params lib df_areas of
        Inl e \<Rightarrow> Inl e
      | Inr transitions \<Rightarrow>
          (case fit_loop_root params lib df_areas (zip transitions (tl transitions)) of
             Inl e \<Rightarrow> Inl e
           | Inr fitted \<Rightarrow> Inr (map fst fitted, map snd fitted)))"


subsection \<open>A library for concrete evaluations\<close>

text \<open>
  Filters that return their input, a peak finder that finds no peak, and a solver that never
  converges.
\<close>

definition plain_library :: library where
  "plain_library =
     \<lparr> savgol_filter = (\<lambda>x w p. Some x),
       gaussian_filter1d = (\<lambda>x sigma mode. x),
       find_peaks = (\<lambda>x h d. Some []),
       rolling_median = (\<lambda>x w. x),
       curve_fit = (\<lambda>model xdata ydata p0 lower upper fev. None) \<rparr>"

text \<open>The same library with a solver that converges for one model only.\<close>

definition solver_library :: "string \<Rightarrow> real list \<Rightarrow> library" where
  "solver_library shape ps =
     plain_library\<lparr> curve_fit :=
       (\<lambda>model xdata ydata p0 lower upper fev. if model = shape then Some ps else None) \<rparr>"

text \<open>A table of twelve rows: a cylinder of cross-section 100.\<close>

definition example_table :: "df_row list" where
  "example_table =
     map (\<lambda>i. \<lparr> Height_mm = real i, Volume_mm3 = 100 * real i, Area = 100 \<rparr>) [0..<12]"

text \<open>The same library with a peak finder that reports one peak, at score index 14.\<close>

definition peak_library :: library where
  "peak_library = plain_library\<lparr> find_peaks := (\<lambda>x h d. Some [14]) \<rparr>"

text \<open>A table of thirty rows: cross-section 100 up to height 15, then 200.\<close>

definition two_step_table :: "df_row list" where
  "two_step_table =
     map (\<lambda>i. \<lparr> Height_mm = real i,
               Volume_mm3 = (if i < 15 then 100 * real i else 1500 + 200 * (real i - 15)),
               Area = (if i < 15 then 100 else 200) \<rparr>) [0..<30]"

text \<open>
  A table of twelve rows measured on a frustum with radii 10 and 10.2 over the height 11,
  and a solver that returns this frustum and, for the cylinder, the radius 10.08.
\<close>

definition frustum_table :: "df_row list" where
  "frustum_table =
     map (\<lambda>i. \<lparr> Height_mm = real i,
               Volume_mm3 = volume_frustum (real i) 10 (51 / 5) 11,
               Area = pi * (10 + real i / 55)\<^sup>2 \<rparr>) [0..<12]"

definition two_model_library :: library where
  "two_model_library =
     plain_library\<lparr> curve_fit :=
       (\<lambda>model xdata ydata p0 lower upper fev.
          if model = ''frustum'' then Some [10, 51 / 5, 11]
          else if model = ''cylinder'' then Some [252 / 25]
          else None) \<rparr>"


subsection \<open>The specification's words\<close>



text \<open>
  The invariant of the data model for a segment list over \<open>n\<close> area points: the list is
  not empty, the first segment starts at index 0, the last ends at index \<open>n - 1\<close>, every
  segment has its start index below its end index, and each segment starts where the one
  before it ends.
\<close>

definition segments_invariant :: "int \<Rightarrow> segment list \<Rightarrow> bool" where
  "segments_invariant n segments \<longleftrightarrow>
     segments \<noteq> []
     \<and> fst (hd segments) = 0
     \<and> fst (snd (last segments)) = n - 1
     \<and> list_all (\<lambda>s. fst s < fst (snd s)) segments
     \<and> list_all (\<lambda>(s, t). fst t = fst (snd s)) (zip segments (tl segments))"

text \<open>The last two parts of the invariant alone.\<close>

definition contiguous :: "segment list \<Rightarrow> bool" where
  "contiguous segments \<longleftrightarrow>
     list_all (\<lambda>s. fst s < fst (snd s)) segments
     \<and> list_all (\<lambda>(s, t). fst t = fst (snd s)) (zip segments (tl segments))"

text \<open>
  Every pair of consecutive transitions spans at least \<open>mp\<close> points (\<open>end - start + 1\<close>).
\<close>

definition spans_long_enough :: "int \<Rightarrow> int list \<Rightarrow> bool" where
  "spans_long_enough mp transitions \<longleftrightarrow>
     list_all (\<lambda>(a, b). mp \<le> b - a + 1) (zip transitions (tl transitions))"

section \<open>Properties\<close>

subsection \<open>numpy helpers\<close>

lemma length_np_linspace: "length (np_linspace a b num) = num"
  by (simp add: np_linspace_def)

lemma np_clip_bounds: "lo \<le> hi \<Longrightarrow> lo \<le> np_clip x lo hi \<and> np_clip x lo hi \<le> hi"
  by (simp add: np_clip_def)





lemma sort_key_hd_min:
  "xs \<noteq> [] \<Longrightarrow> hd (sort_key f xs) \<in> set xs \<and> (\<forall>y \<in> set xs. f (hd (sort_key f xs)) \<le> f y)"
proof -
  assume ne: "xs \<noteq> []"
  let ?s = "sort_key f xs"
  have sne: "?s \<noteq> []" using ne by (metis length_0_conv length_sort)
  have srt: "sorted (map f ?s)" by simp
  have "hd ?s \<in> set ?s" using sne by (rule hd_in_set)
  then have mem: "hd ?s \<in> set xs" by (simp only: set_sort)
  have "f (hd ?s) \<le> f y" if "y \<in> set xs" for y
  proof -
    from that have "y \<in> set ?s" by (simp only: set_sort)
    then obtain i where i: "i < length ?s" "?s ! i = y" by (metis in_set_conv_nth)
    have "map f ?s ! 0 \<le> map f ?s ! i"
      using srt i(1) by (intro sorted_nth_mono) auto
    moreover have "0 < length ?s" using sne by blast
    ultimately have "f (?s ! 0) \<le> f (?s ! i)" using i(1) by (simp only: nth_map)
    then show ?thesis using i(2) sne by (metis hd_conv_nth)
  qed
  with mem show ?thesis by blast
qed

subsection \<open>Too few points\<close>

text \<open>
  Claim C9. For an area sequence of fewer than \<open>2 * min_points\<close> points, the legacy detector,
  the improved detector and the stability-based detector (and the hybrid detector) return
  exactly the two end indices \<open>[0, n - 1]\<close>, as a value and not as an exception.
\<close>

theorem too_few_points_gives_endpoints:
  assumes "int (length area) < 2 * mp"
  shows "find_optimal_transitions lib area mp pct var_threshold = [0, int (length area) - 1]
       \<and> find_optimal_transitions_improved lib area heights_arg mp use_adaptive
           = Inr [0, int (length area) - 1]
       \<and> find_stability_transitions lib area heights mp = Inr [0, int (length area) - 1]
       \<and> find_optimal_transitions_hybrid lib area heights mp
           = Inr (Some [0, int (length area) - 1], ''insufficient_data'')"
  using assms
  by (simp add: find_optimal_transitions_def find_optimal_transitions_improved_def
      find_stability_transitions_def find_optimal_transitions_hybrid_def Let_def)

theorem too_few_points_gives_endpoints_witness:
  "int (length [5, 6, 7 :: real]) < 2 * 12
   \<and> find_optimal_transitions plain_library [5, 6, 7] 12 96 0.14 = [0, 2]
   \<and> find_optimal_transitions_improved plain_library [5, 6, 7] None 12 True = Inr [0, 2]
   \<and> find_stability_transitions plain_library [5, 6, 7] [0, 1, 2] 12 = Inr [0, 2]"
  using too_few_points_gives_endpoints[of "[5, 6, 7]" 12 plain_library 96 "0.14" None True
      "[0, 1, 2]"]
  by simp

subsection \<open>Score and adaptive threshold of the improved detector\<close>




lemma detector_threshold:
  assumes "2 * mp \<le> int (length area)" and "2 \<le> length area"
    and "estimate_snr lib area = Inr snr"
  shows "find_optimal_transitions_improved lib area (Some heights) mp True
         = Inr (transitions_at_threshold lib area mp (improved_score lib area heights)
                  (np_percentile (improved_score lib area heights) (adaptive_percentile snr)))"
  using assms
  by (simp add: find_optimal_transitions_improved_def improved_percentile_def Let_def)










lemma length_two_step_table: "length two_step_table = 30"
  by (simp add: two_step_table_def)






subsection \<open>Segment-count prediction and routing\<close>

lemma zero_crossing_range:
  "1 \<le> predict_segment_count_zero_crossing area heights
   \<and> predict_segment_count_zero_crossing area heights \<le> 3"
  by (simp add: predict_segment_count_zero_crossing_def Let_def pos_imp_zdiv_nonneg_iff)

lemma variance_range:
  "1 \<le> predict_segment_count_variance area heights
   \<and> predict_segment_count_variance area heights \<le> 3"
  by (simp add: predict_segment_count_variance_def Let_def pos_imp_zdiv_nonneg_iff)

lemma curvature_regime_range:
  "predict_segment_count_curvature_regime lib area heights = Inr p \<Longrightarrow> 1 \<le> p \<and> p \<le> 3"
  by (auto simp: predict_segment_count_curvature_regime_def Let_def pos_imp_zdiv_nonneg_iff
      split: if_splits option.splits)

lemma median_of_three:
  "\<lfloor>np_median (map real_of_int [a, b, c])\<rfloor> = sort [a, b, c] ! 1"
proof -
  have "sort (map real_of_int [a, b, c]) = map real_of_int (sort [a, b, c])"
    by (auto simp: insort_is_Cons)
  then show ?thesis
    by (simp add: np_median_def Let_def del: sort_key_simps list.map)
qed

text \<open>
  Claim C8, as amended. Each of the three heuristics returns 1, 2 or 3; the ensemble
  prediction is the median (the middle of the three sorted values); and for an input of at
  least \<open>2 * min_points\<close> points the hybrid detector names the multi-derivative route exactly
  when the prediction is at most 2, and runs the stability-based detector exactly when it is
  3 or more (an exception leaving the call can only come from that detector).
\<close>

theorem segment_count_prediction_and_routing:
  "1 \<le> predict_segment_count_zero_crossing area heights
   \<and> predict_segment_count_zero_crossing area heights \<le> 3
   \<and> 1 \<le> predict_segment_count_variance area heights
   \<and> predict_segment_count_variance area heights \<le> 3
   \<and> (predict_segment_count_curvature_regime lib area heights = Inr p2 \<longrightarrow> 1 \<le> p2 \<and> p2 \<le> 3)
   \<and> (predict_segment_count lib area heights = Inr (p, c) \<longrightarrow>
        (\<exists>q. predict_segment_count_curvature_regime lib area heights = Inr q
             \<and> p = sort [predict_segment_count_zero_crossing area heights, q,
                           predict_segment_count_variance area heights] ! 1)
        \<and> 1 \<le> p \<and> p \<le> 3)
   \<and> (2 * mp \<le> int (length area) \<and> predict_segment_count lib area heights = Inr (p, c) \<longrightarrow>
        (case find_optimal_transitions_hybrid lib area heights mp of
           Inr (t, m) \<Rightarrow>
             (m = ''route_multi_derivative'' \<longleftrightarrow> p \<le> 2) \<and> (m = ''stability'' \<longleftrightarrow> 3 \<le> p)
         | Inl e \<Rightarrow> 3 \<le> p))"
proof -
  have med: "1 \<le> sort [a, b, d] ! 1 \<and> sort [a, b, d] ! 1 \<le> 3"
    if "1 \<le> a" "a \<le> 3" "1 \<le> b" "b \<le> 3" "1 \<le> d" "d \<le> 3" for a b d :: int
  proof -
    have "sort [a, b, d] ! 1 \<in> set (sort [a, b, d])"
      by (rule nth_mem) (simp del: sort_key_simps)
    then show ?thesis using that by auto
  qed
  have pred: "(\<exists>q. predict_segment_count_curvature_regime lib area heights = Inr q
             \<and> p = sort [predict_segment_count_zero_crossing area heights, q,
                           predict_segment_count_variance area heights] ! 1)
        \<and> 1 \<le> p \<and> p \<le> 3"
    if h: "predict_segment_count lib area heights = Inr (p, c)"
  proof -
    from h obtain q where q: "predict_segment_count_curvature_regime lib area heights = Inr q"
      by (cases "predict_segment_count_curvature_regime lib area heights")
         (auto simp: predict_segment_count_def Let_def)
    from h q have p: "p = sort [predict_segment_count_zero_crossing area heights, q,
                           predict_segment_count_variance area heights] ! 1"
      using median_of_three
      by (simp add: predict_segment_count_def Let_def del: sort_key_simps list.map)
    show ?thesis
      using q p med[OF conjunct1[OF zero_crossing_range] conjunct2[OF zero_crossing_range]
          conjunct1[OF curvature_regime_range[OF q]] conjunct2[OF curvature_regime_range[OF q]]
          conjunct1[OF variance_range] conjunct2[OF variance_range]]
      by blast
  qed
  have route: "(case find_optimal_transitions_hybrid lib area heights mp of
           Inr (t, m) \<Rightarrow>
             (m = ''route_multi_derivative'' \<longleftrightarrow> p \<le> 2) \<and> (m = ''stability'' \<longleftrightarrow> 3 \<le> p)
         | Inl e \<Rightarrow> 3 \<le> p)"
    if "2 * mp \<le> int (length area)" "predict_segment_count lib area heights = Inr (p, c)"
    using that
    by (auto simp: find_optimal_transitions_hybrid_def Let_def split: sum.splits)
  show ?thesis
    using zero_crossing_range variance_range curvature_regime_range pred route by blast
qed

lemma short_input_prediction:
  "predict_segment_count_curvature_regime plain_library [5, 6, 7] [0, 1, 2] = Inr 1
   \<and> predict_segment_count plain_library [5, 6, 7] [0, 1, 2] = Inr (1, ''high'')"
  by (simp add: predict_segment_count_def predict_segment_count_zero_crossing_def
      predict_segment_count_curvature_regime_def predict_segment_count_variance_def
      np_median_def Let_def)

theorem segment_count_prediction_and_routing_witness:
  "predict_segment_count_curvature_regime plain_library [5, 6, 7] [0, 1, 2] = Inr 1
   \<and> predict_segment_count plain_library [5, 6, 7] [0, 1, 2] = Inr (1, ''high'')
   \<and> 2 * 1 \<le> int (length [5, 6, 7 :: real])
   \<and> find_optimal_transitions_hybrid plain_library [5, 6, 7] [0, 1, 2] 1
       = Inr (None, ''route_multi_derivative'')"
proof -
  have route: "find_optimal_transitions_hybrid plain_library [5, 6, 7] [0, 1, 2] 1
                 = Inr (None, ''route_multi_derivative'')"
    using short_input_prediction by (simp add: find_optimal_transitions_hybrid_def)
  show ?thesis
    using segment_count_prediction_and_routing[of "[5, 6, 7]" "[0, 1, 2]" plain_library 1 1
        "''high''" 1] short_input_prediction route
    by simp
qed

text \<open>
  The claim as stated fails on a short input: three points are predicted to be one segment,
  and the hybrid detector answers \<open>insufficient_data\<close> instead of naming the multi-derivative
  route.
\<close>

theorem short_input_is_not_routed:
  "predict_segment_count plain_library [5, 6, 7] [0, 1, 2] = Inr (1, ''high'')
   \<and> find_optimal_transitions_hybrid plain_library [5, 6, 7] [0, 1, 2] 12
       = Inr (Some [0, 2], ''insufficient_data'')"
  by (simp add: predict_segment_count_def predict_segment_count_zero_crossing_def
      predict_segment_count_curvature_regime_def predict_segment_count_variance_def
      find_optimal_transitions_hybrid_def np_median_def Let_def)

subsection \<open>Model selection\<close>

lemma best_adjusted_minimal:
  "results \<noteq> [] \<Longrightarrow> best_adjusted results \<in> set results
     \<and> (\<forall>f \<in> set results. adjusted_error (best_adjusted results) \<le> adjusted_error f)"
  unfolding best_adjusted_def by (rule sort_key_hd_min)

subsection \<open>Shape fitting\<close>

lemma fit_cylinder_shape:
  "fit_cylinder params lib x y g = Some f \<Longrightarrow> fst f = ''cylinder''"
  by (auto simp: fit_cylinder_def Let_def split: option.splits list.splits)

lemma fit_frustum_shape:
  "fit_frustum params lib x y area start stop ma hs = Some f \<Longrightarrow> fst f = ''frustum''"
  by (auto simp: fit_frustum_def Let_def split: option.splits list.splits sum.splits if_splits)

lemma fit_cone_shape:
  "fit_cone params lib x y area stop hs = Some f \<Longrightarrow> fst f = ''cone''"
  by (auto simp: fit_cone_def Let_def split: option.splits list.splits sum.splits)

lemma fit_sphere_cap_shape:
  "fit_sphere_cap params lib x y area start stop = Some f \<Longrightarrow> fst f = ''sphere_cap''"
  by (auto simp: fit_sphere_cap_def Let_def split: option.splits list.splits if_splits)

lemma fit_results_shapes:
  "map fst (fit_results params lib x y area start stop ma g hs)
     = (if fit_cylinder params lib x y g = None then [] else [''cylinder''])
       @ (if fit_frustum params lib x y area start stop ma hs = None then [] else [''frustum''])
       @ (if fit_cone params lib x y area stop hs = None then [] else [''cone''])
       @ (if fit_sphere_cap params lib x y area start stop = None then [] else [''sphere_cap''])"
  using fit_cylinder_shape[of params lib x y g]
    fit_frustum_shape[of params lib x y area start stop ma hs]
    fit_cone_shape[of params lib x y area stop hs]
    fit_sphere_cap_shape[of params lib x y area start stop]
  by (auto simp: fit_results_def List.map_filter_simps)

text \<open>
  The selection of the top-level module and of version 3.11.0 is a cylinder or a frustum,
  nothing else.
\<close>

lemma select_fit_two_models_shape:
  "fst (select_fit_two_models cyl frust guess_r) = ''cylinder''
   \<or> fst (select_fit_two_models cyl frust guess_r) = ''frustum''"
  by (auto simp: select_fit_two_models_def split: option.splits)

lemma cylinder_preference_shape:
  "fst (cylinder_preference results best) = ''cylinder''
   \<or> fst (cylinder_preference results best) = fst best"
  by (cases best) (auto simp: cylinder_preference_def Let_def split: list.splits)

lemma select_best_fit_shape:
  assumes "results \<noteq> []"
  shows "fst (select_best_fit results) \<in> insert ''cylinder'' (fst ` set results)"
proof -
  have "best_adjusted results \<in> set results"
    using best_adjusted_minimal[OF assms] by blast
  then have a: "fst (best_adjusted results) \<in> fst ` set results" by blast
  have "fst (select_best_fit results) = ''cylinder''
        \<or> fst (select_best_fit results) = fst (best_adjusted results)"
    unfolding select_best_fit_def by (rule cylinder_preference_shape)
  then show ?thesis using a by (metis insertCI)
qed

lemma fit_segment_shape:
  assumes "fit_segment params lib df start stop = Inr ((a, b, shape, ps), e)"
  shows "shape \<in> {''cylinder'', ''frustum'', ''cone'', ''sphere_cap''}"
proof -
  define x where "x = py_slice (map Height_mm df) start (stop + 1)"
  define y where "y = py_slice (map Volume_mm3 df) start (stop + 1)"
  define ma where "ma = np_median (py_slice (map Area df) start (stop + 1))"
  define results where "results = fit_results params lib x y (map Area df) start stop ma
      (sqrt (ma / pi)) (last x - hd x)"
  have sub: "fst ` set results \<subseteq> {''cylinder'', ''frustum'', ''cone'', ''sphere_cap''}"
  proof -
    have "set (map fst results) \<subseteq> {''cylinder'', ''frustum'', ''cone'', ''sphere_cap''}"
      unfolding results_def fit_results_shapes by auto
    then show ?thesis by simp
  qed
  show ?thesis
  proof (cases "results = []")
    case True
    then show ?thesis
      using assms by (auto simp: fit_segment_def Let_def x_def y_def ma_def results_def split: if_splits)
  next
    case False
    then have "shape = fst (select_best_fit results)"
      using assms
      by (auto simp: fit_segment_def Let_def x_def y_def ma_def results_def
          split: if_splits prod.splits)
    then show ?thesis using select_best_fit_shape[OF False] sub by auto
  qed
qed

lemma py_slice_whole: "int (length xs) = n \<Longrightarrow> py_slice xs 0 n = xs"
  by (auto simp: py_slice_def py_norm_def Let_def)

lemma py_index_last:
  "xs \<noteq> [] \<Longrightarrow> py_index xs (int (length xs) - 1) = Inr (last xs)"
proof -
  assume ne: "xs \<noteq> []"
  then have "nat (int (length xs) - 1) = length xs - 1" by simp
  then show ?thesis using ne by (simp add: py_index_def last_conv_nth)
qed

lemma py_index_first: "xs \<noteq> [] \<Longrightarrow> py_index xs 0 = Inr (hd xs)"
  by (auto simp: py_index_def hd_conv_nth)

lemma merge_segments_single: "merge_segments [s] = [s]"
  by (simp add: merge_segments_def)

lemma select_single:
  "shape \<noteq> ''frustum'' \<Longrightarrow> select_best_fit [(shape, ps, e)] = (shape, ps, e)"
  by (simp add: select_best_fit_def best_adjusted_def cylinder_preference_def)

lemma select_single_frustum:
  "\<not> (0 < max r1 r2 \<and> \<bar>r2 - r1\<bar> / max r1 r2 < 0.05) \<Longrightarrow>
   select_best_fit [(''frustum'', [r1, r2, H], e)] = (''frustum'', [r1, r2, H], e)"
  by (simp add: select_best_fit_def best_adjusted_def cylinder_preference_def Let_def)

lemma solver_curve_fit:
  "curve_fit (solver_library shape ps) model xd yd p0 lo hi fev
     = (if model = shape then Some ps else None)"
  by (simp add: solver_library_def)

lemma short_table_transitions:
  assumes "length df < 24"
  shows "detect_transitions DEFAULT_PARAMS lib df = Inr [0, int (length df) - 1]"
  using assms
  by (simp add: detect_transitions_def DEFAULT_PARAMS_def find_optimal_transitions_improved_def
      Let_def)

lemma one_model_segment:
  assumes ne: "df \<noteq> []"
    and sel: "select_best_fit [(shape, ps, e)] = (shape, ps, e)"
    and res: "\<And>ma g hs. fit_results DEFAULT_PARAMS lib (map Height_mm df) (map Volume_mm3 df)
                (map Area df) 0 (int (length df) - 1) ma g hs = [(shape, ps, e)]"
  shows "fit_segment DEFAULT_PARAMS lib df 0 (int (length df) - 1)
           = Inr ((0, int (length df) - 1, shape, ps), e)"
  using ne res sel by (simp add: fit_segment_def Let_def py_slice_whole)

lemma one_model_table:
  assumes len: "12 \<le> length df" "length df < 24"
    and sel: "select_best_fit [(shape, ps, e)] = (shape, ps, e)"
    and res: "\<And>ma g hs. fit_results DEFAULT_PARAMS lib (map Height_mm df) (map Volume_mm3 df)
                (map Area df) 0 (int (length df) - 1) ma g hs = [(shape, ps, e)]"
  shows "segment_and_fit DEFAULT_PARAMS lib df
           = Inr ([(0, int (length df) - 1, shape, ps)], [e])"
proof -
  have ne: "df \<noteq> []" using len by auto
  have mp: "min_points DEFAULT_PARAMS = 12" by (simp add: DEFAULT_PARAMS_def)
  have fs: "fit_segment DEFAULT_PARAMS lib df 0 (int (length df) - 1)
              = Inr ((0, int (length df) - 1, shape, ps), e)"
    by (rule one_model_segment[OF ne sel res])
  show ?thesis
    using len fs
    by (simp add: segment_and_fit_def short_table_transitions mp merge_segments_single)
qed

lemma solver_cylinder:
  "fit_results params (solver_library ''cylinder'' [r]) x y area start stop ma g hs
     = [(''cylinder'', [r], fit_error_pct (\<lambda>h. volume_cylinder h r) x y)]"
  by (simp add: fit_results_def fit_cylinder_def fit_frustum_def fit_cone_def fit_sphere_cap_def
      solver_curve_fit Let_def List.map_filter_simps split: sum.splits)

lemma solver_frustum:
  "area \<noteq> [] \<Longrightarrow> stop = int (length area) - 1 \<Longrightarrow>
   fit_results params (solver_library ''frustum'' [r1, r2, H]) x y area 0 stop ma g hs
     = [(''frustum'', [r1, r2, H], fit_error_pct (\<lambda>h. volume_frustum h r1 r2 H) x y)]"
  by (simp add: fit_results_def fit_cylinder_def fit_frustum_def fit_cone_def fit_sphere_cap_def
      solver_curve_fit Let_def List.map_filter_simps py_index_last py_index_first
      split: sum.splits)

lemma solver_cone:
  "area \<noteq> [] \<Longrightarrow> stop = int (length area) - 1 \<Longrightarrow>
   fit_results params (solver_library ''cone'' [r_base, H]) x y area start stop ma g hs
     = [(''cone'', [r_base, H], fit_error_pct (\<lambda>h. volume_cone h r_base H) x y)]"
  by (simp add: fit_results_def fit_cylinder_def fit_frustum_def fit_cone_def fit_sphere_cap_def
      solver_curve_fit Let_def List.map_filter_simps py_index_last split: sum.splits)

lemma solver_sphere_cap:
  "area \<noteq> [] \<Longrightarrow> stop = int (length area) - 1 \<Longrightarrow>
   fit_results params (solver_library ''sphere_cap'' [R]) x y area 0 stop ma g hs
     = [(''sphere_cap'', [R], fit_error_pct (\<lambda>h. volume_sphere_cap h R) x y)]"
  by (simp add: fit_results_def fit_cylinder_def fit_frustum_def fit_cone_def fit_sphere_cap_def
      solver_curve_fit Let_def List.map_filter_simps py_slice_whole split: sum.splits)

lemma length_example_table: "length example_table = 12"
  by (simp add: example_table_def)

lemma example_shapes:
  "map_sum id (\<lambda>(segs, errs). map (fst \<circ> snd \<circ> snd) segs)
      (segment_and_fit DEFAULT_PARAMS (solver_library ''cylinder'' [5]) example_table)
     = Inr [''cylinder'']
   \<and> map_sum id (\<lambda>(segs, errs). map (fst \<circ> snd \<circ> snd) segs)
      (segment_and_fit DEFAULT_PARAMS (solver_library ''frustum'' [4, 6, 11]) example_table)
     = Inr [''frustum'']
   \<and> map_sum id (\<lambda>(segs, errs). map (fst \<circ> snd \<circ> snd) segs)
      (segment_and_fit DEFAULT_PARAMS (solver_library ''cone'' [6, 11]) example_table)
     = Inr [''cone'']
   \<and> map_sum id (\<lambda>(segs, errs). map (fst \<circ> snd \<circ> snd) segs)
      (segment_and_fit DEFAULT_PARAMS (solver_library ''sphere_cap'' [20]) example_table)
     = Inr [''sphere_cap'']"
proof -
  have ne: "map Area example_table \<noteq> []" by (simp add: example_table_def)
  have n: "int (length example_table) - 1 = int (length (map Area example_table)) - 1" by simp
  have c1: "segment_and_fit DEFAULT_PARAMS (solver_library ''cylinder'' [5]) example_table
      = Inr ([(0, int (length example_table) - 1, ''cylinder'', [5])],
             [fit_error_pct (\<lambda>h. volume_cylinder h 5) (map Height_mm example_table)
                (map Volume_mm3 example_table)])"
    by (rule one_model_table) (simp_all add: length_example_table select_single solver_cylinder)
  have c2: "segment_and_fit DEFAULT_PARAMS (solver_library ''frustum'' [4, 6, 11]) example_table
      = Inr ([(0, int (length example_table) - 1, ''frustum'', [4, 6, 11])],
             [fit_error_pct (\<lambda>h. volume_frustum h 4 6 11) (map Height_mm example_table)
                (map Volume_mm3 example_table)])"
    apply (rule one_model_table)
       apply (simp_all add: length_example_table select_single_frustum)
    apply (rule solver_frustum[OF ne])
    apply (simp add: length_example_table)
    done
  have c3: "segment_and_fit DEFAULT_PARAMS (solver_library ''cone'' [6, 11]) example_table
      = Inr ([(0, int (length example_table) - 1, ''cone'', [6, 11])],
             [fit_error_pct (\<lambda>h. volume_cone h 6 11) (map Height_mm example_table)
                (map Volume_mm3 example_table)])"
    apply (rule one_model_table)
       apply (simp_all add: length_example_table select_single)
    apply (rule solver_cone[OF ne])
    apply (simp add: length_example_table)
    done
  have c4: "segment_and_fit DEFAULT_PARAMS (solver_library ''sphere_cap'' [20]) example_table
      = Inr ([(0, int (length example_table) - 1, ''sphere_cap'', [20])],
             [fit_error_pct (\<lambda>h. volume_sphere_cap h 20) (map Height_mm example_table)
                (map Volume_mm3 example_table)])"
    apply (rule one_model_table)
       apply (simp_all add: length_example_table select_single)
    apply (rule solver_sphere_cap[OF ne])
    apply (simp add: length_example_table)
    done
  show ?thesis by (simp add: c1 c2 c3 c4)
qed

lemma cone_segment_example:
  "fit_segment DEFAULT_PARAMS (solver_library ''cone'' [6, 11]) example_table 0 11
     = Inr ((0, 11, ''cone'', [6, 11]),
            fit_error_pct (\<lambda>h. volume_cone h 6 11) (map Height_mm example_table)
              (map Volume_mm3 example_table))"
proof -
  have ne: "example_table \<noteq> []" by (simp add: example_table_def)
  have nea: "map Area example_table \<noteq> []" by (simp add: example_table_def)
  have "fit_segment DEFAULT_PARAMS (solver_library ''cone'' [6, 11]) example_table 0
          (int (length example_table) - 1)
     = Inr ((0, int (length example_table) - 1, ''cone'', [6, 11]),
            fit_error_pct (\<lambda>h. volume_cone h 6 11) (map Height_mm example_table)
              (map Volume_mm3 example_table))"
    apply (rule one_model_segment[OF ne])
     apply (simp add: select_single)
    apply (rule solver_cone[OF nea])
    apply simp
    done
  then show ?thesis by (simp add: length_example_table)
qed

lemma fit_segment_root_shape:
  assumes "fit_segment_root params lib df start stop = Inr ((a, b, shape, ps), e)"
  shows "shape = ''cylinder'' \<or> shape = ''frustum''"
proof -
  have "\<And>c f g. fst (select_fit_two_models c f g) = ''cylinder''
          \<or> fst (select_fit_two_models c f g) = ''frustum''"
    by (rule select_fit_two_models_shape)
  then show ?thesis
    using assms
    by (auto simp: fit_segment_root_def Let_def split: if_splits prod.splits) (metis fst_conv)+
qed

lemma fit_loop_root_shapes:
  "fit_loop_root params lib df pairs = Inr fitted \<Longrightarrow>
   \<forall>f \<in> set fitted. fst (snd (snd (fst f))) = ''cylinder'' \<or> fst (snd (snd (fst f))) = ''frustum''"
proof (induction pairs arbitrary: fitted)
  case Nil
  then show ?case by simp
next
  case (Cons p pairs)
  obtain start stop where p: "p = (start, stop)" by (cases p)
  show ?case
  proof (cases "stop - start + 1 < min_points params")
    case True
    then show ?thesis using Cons p by simp
  next
    case False
    then obtain f others where f: "fit_segment_root params lib df start stop = Inr f"
      and o: "fit_loop_root params lib df pairs = Inr others" and fo: "fitted = f # others"
      using Cons.prems p by (auto split: sum.splits)
    obtain a b shape ps e where fe: "f = ((a, b, shape, ps), e)" by (cases f) auto
    have "shape = ''cylinder'' \<or> shape = ''frustum''"
      using fit_segment_root_shape f fe by blast
    then show ?thesis using Cons.IH[OF o] fo fe by simp
  qed
qed

lemma segment_and_fit_root_shapes:
  assumes "segment_and_fit_root params lib df = Inr (segs, errs)"
  shows "\<forall>s \<in> set segs. fst (snd (snd s)) = ''cylinder'' \<or> fst (snd (snd s)) = ''frustum''"
proof -
  obtain T fitted where "fit_loop_root params lib df (zip T (tl T)) = Inr fitted"
    and "segs = map fst fitted"
    using assms by (auto simp: segment_and_fit_root_def split: sum.splits)
  then show ?thesis using fit_loop_root_shapes by fastforce
qed

lemma case_solved1:
  "(case ps of Some [r] \<Rightarrow> Some (g r) | _ \<Rightarrow> None) = Some f \<longleftrightarrow> (\<exists>r. ps = Some [r] \<and> f = g r)"
  by (auto split: option.splits list.splits)

lemma case_solved2:
  "(case ps of Some [r, H] \<Rightarrow> Some (g r H) | _ \<Rightarrow> None) = Some f
     \<longleftrightarrow> (\<exists>r H. ps = Some [r, H] \<and> f = g r H)"
  by (auto split: option.splits list.splits)

lemma case_solved3:
  "(case ps of Some [r1, r2, H] \<Rightarrow> Some (g r1 r2 H) | _ \<Rightarrow> None) = Some f
     \<longleftrightarrow> (\<exists>r1 r2 H. ps = Some [r1, r2, H] \<and> f = g r1 r2 H)"
  by (auto split: option.splits list.splits)

lemma fit_cylinder_root_call:
  "fit_cylinder_root params lib x y guess_r = Some c \<longleftrightarrow>
     (\<exists>r. curve_fit lib ''cylinder'' (map (\<lambda>xi. xi - hd x) x) (map (\<lambda>yi. yi - hd y) y)
             [guess_r] [0.5 * guess_r] [3 * guess_r] (maxfev params) = Some [r]
         \<and> c = (r, fit_error (\<lambda>h. volume_cylinder h r) x y,
                 fit_error (\<lambda>h. volume_cylinder h r) x y / (last y + 1 / 10 ^ 6) * 100))"
  unfolding fit_cylinder_root_def Let_def
  by (simp add: GEOMETRIC_CONSTRAINTS_def case_solved1)

lemma fit_frustum_root_call:
  "fit_frustum_root params lib x y area start stop mean_area height_span = Some f \<longleftrightarrow>
     (\<exists>area_start area_end r1 r2 H.
         (if start > 0 then py_index area start else Inr mean_area) = Inr area_start
       \<and> (if stop < int (length area) - 1 then py_index area stop else Inr mean_area) = Inr area_end
       \<and> curve_fit lib ''frustum'' (map (\<lambda>xi. xi - hd x) x) (map (\<lambda>yi. yi - hd y) y)
             [sqrt (area_start / pi), sqrt (area_end / pi), height_span]
             [0.5 * sqrt (area_start / pi), 0.5 * sqrt (area_end / pi), 0.8 * height_span]
             [3 * sqrt (area_start / pi), 3 * sqrt (area_end / pi), 1.2 * height_span]
             (maxfev params) = Some [r1, r2, H]
       \<and> f = ([r1, r2, H], fit_error (\<lambda>h. volume_frustum h r1 r2 H) x y,
                fit_error (\<lambda>h. volume_frustum h r1 r2 H) x y / (last y + 1 / 10 ^ 6) * 100))"
proof (cases "if start > 0 then py_index area start else Inr mean_area")
  case (Inl e)
  then show ?thesis by (simp add: fit_frustum_root_def)
next
  case a: (Inr area_start)
  show ?thesis
  proof (cases "if stop < int (length area) - 1 then py_index area stop else Inr mean_area")
    case (Inl e)
    then show ?thesis using a by (simp add: fit_frustum_root_def)
  next
    case (Inr area_end)
    then show ?thesis
      using a unfolding fit_frustum_root_def Let_def
      by (simp add: GEOMETRIC_CONSTRAINTS_def case_solved3)
  qed
qed

lemma fit_cylinder_call:
  "fit_cylinder params lib x y guess_r = Some c \<longleftrightarrow>
     (\<exists>r. curve_fit lib ''cylinder'' (map (\<lambda>xi. xi - hd x) x) (map (\<lambda>yi. yi - hd y) y)
             [guess_r] [0.5 * guess_r] [3 * guess_r] (maxfev params) = Some [r]
         \<and> c = (''cylinder'', [r], fit_error_pct (\<lambda>h. volume_cylinder h r) x y))"
  by (simp add: fit_cylinder_def GEOMETRIC_CONSTRAINTS_def Let_def case_solved1)

lemma fit_frustum_call:
  "fit_frustum params lib x y area start stop mean_area height_span = Some f \<longleftrightarrow>
     (\<exists>area_start area_end r1 r2 H.
         (if start < int (length area) then py_index area start else Inr mean_area) = Inr area_start
       \<and> py_index area (min stop (int (length area) - 1)) = Inr area_end
       \<and> curve_fit lib ''frustum'' (map (\<lambda>xi. xi - hd x) x) (map (\<lambda>yi. yi - hd y) y)
             [sqrt (area_start / pi), sqrt (area_end / pi), height_span]
             [0.5 * sqrt (area_start / pi), 0.5 * sqrt (area_end / pi), 0.8 * height_span]
             [3 * sqrt (area_start / pi), 3 * sqrt (area_end / pi), 1.2 * height_span]
             (maxfev params) = Some [r1, r2, H]
       \<and> f = (''frustum'', [r1, r2, H], fit_error_pct (\<lambda>h. volume_frustum h r1 r2 H) x y))"
proof (cases "if start < int (length area) then py_index area start else Inr mean_area")
  case (Inl e)
  then show ?thesis by (simp add: fit_frustum_def)
next
  case a: (Inr area_start)
  show ?thesis
  proof (cases "py_index area (min stop (int (length area) - 1))")
    case (Inl e)
    then show ?thesis using a by (simp add: fit_frustum_def)
  next
    case (Inr area_end)
    then show ?thesis
      using a by (simp add: fit_frustum_def GEOMETRIC_CONSTRAINTS_def Let_def case_solved3)
  qed
qed

lemma fit_cone_call:
  "fit_cone params lib x y area stop height_span = Some f \<longleftrightarrow>
     (\<exists>area_end r_base H.
         py_index area (min stop (int (length area) - 1)) = Inr area_end
       \<and> curve_fit lib ''cone'' (map (\<lambda>xi. xi - hd x) x) (map (\<lambda>yi. yi - hd y) y)
             [sqrt (area_end / pi), height_span]
             [0.1 * sqrt (area_end / pi), 0.5 * height_span]
             [5 * sqrt (area_end / pi), 2 * height_span]
             (maxfev params) = Some [r_base, H]
       \<and> f = (''cone'', [r_base, H], fit_error_pct (\<lambda>h. volume_cone h r_base H) x y))"
proof (cases "py_index area (min stop (int (length area) - 1))")
  case (Inl e)
  then show ?thesis by (simp add: fit_cone_def)
next
  case (Inr area_end)
  then show ?thesis by (simp add: fit_cone_def Let_def case_solved2)
qed

lemma fit_sphere_cap_call:
  "fit_sphere_cap params lib x y area start stop = Some f \<longleftrightarrow>
     (\<exists>R. py_slice area start (min (stop + 1) (int (length area))) \<noteq> []
       \<and> curve_fit lib ''sphere_cap'' (map (\<lambda>xi. xi - hd x) x) (map (\<lambda>yi. yi - hd y) y)
             [1.5 * sqrt (np_max (py_slice area start (min (stop + 1) (int (length area)))) / pi)]
             [0.5 * (1.5 * sqrt (np_max (py_slice area start (min (stop + 1) (int (length area)))) / pi))]
             [10 * (1.5 * sqrt (np_max (py_slice area start (min (stop + 1) (int (length area)))) / pi))]
             (maxfev params) = Some [R]
       \<and> f = (''sphere_cap'', [R], fit_error_pct (\<lambda>h. volume_sphere_cap h R) x y))"
  by (simp add: fit_sphere_cap_def Let_def case_solved1)

lemma short_table_transitions_root:
  assumes "length df < 24"
  shows "detect_transitions_root DEFAULT_PARAMS_root lib df = Inr [0, int (length df) - 1]"
  using assms
  by (simp add: detect_transitions_root_def DEFAULT_PARAMS_root_def
      find_optimal_transitions_improved_root_def Let_def)

lemma one_span_table_root:
  assumes len: "12 \<le> length df" "length df < 24"
    and fit: "fit_segment_root DEFAULT_PARAMS_root lib df 0 (int (length df) - 1) = Inr (seg, e)"
  shows "segment_and_fit_root DEFAULT_PARAMS_root lib df = Inr ([seg], [e])"
proof -
  have mp: "min_points DEFAULT_PARAMS_root = 12" by (simp add: DEFAULT_PARAMS_root_def)
  show ?thesis
    using len fit by (simp add: segment_and_fit_root_def short_table_transitions_root mp)
qed

lemma median_example: "np_median (map Area example_table) = 100"
proof -
  have a: "map Area example_table = replicate 12 100"
    by (simp add: example_table_def comp_def map_replicate_const)
  have "sort (replicate 12 (100::real)) = replicate 12 100"
    by (rule sorted_sort_id) simp
  then show ?thesis by (simp add: np_median_def a Let_def)
qed

lemma example_segment_root:
  "fit_segment_root params lib example_table 0 11
     = (case select_fit_two_models
               (fit_cylinder_root params lib (map Height_mm example_table)
                  (map Volume_mm3 example_table) (sqrt (100 / pi)))
               (fit_frustum_root params lib (map Height_mm example_table)
                  (map Volume_mm3 example_table) (map Area example_table) 0 11 100 11)
               (sqrt (100 / pi)) of
          (shape, ps, error_pct) \<Rightarrow> Inr ((0, 11, shape, ps), error_pct))"
proof -
  have s: "py_slice (map f example_table) 0 12 = map f example_table" for f :: "df_row \<Rightarrow> real"
    by (rule py_slice_whole) (simp add: length_example_table)
  have ne: "map Height_mm example_table \<noteq> []" by (simp add: example_table_def)
  have span: "last (map Height_mm example_table) - hd (map Height_mm example_table) = 11"
    by (simp add: example_table_def upt_rec numeral_nat)
  show ?thesis
    using ne by (simp add: fit_segment_root_def Let_def s median_example span)
qed

lemma solver_cylinder_root:
  "fit_cylinder_root params (solver_library ''cylinder'' [r]) x y g
     = Some (r, fit_error (\<lambda>h. volume_cylinder h r) x y,
             fit_error (\<lambda>h. volume_cylinder h r) x y / (last y + 1 / 10 ^ 6) * 100)"
  by (simp add: fit_cylinder_root_def solver_curve_fit Let_def)

lemma solver_not_cylinder_root:
  "shape \<noteq> ''cylinder'' \<Longrightarrow> fit_cylinder_root params (solver_library shape ps) x y g = None"
  by (simp add: fit_cylinder_root_def solver_curve_fit Let_def)

lemma solver_frustum_root:
  "fit_frustum_root params (solver_library ''frustum'' [r1, r2, H]) x y
       (map Area example_table) 0 11 ma hs
     = Some ([r1, r2, H], fit_error (\<lambda>h. volume_frustum h r1 r2 H) x y,
             fit_error (\<lambda>h. volume_frustum h r1 r2 H) x y / (last y + 1 / 10 ^ 6) * 100)"
  by (simp add: fit_frustum_root_def solver_curve_fit Let_def length_example_table)

lemma solver_not_frustum_root:
  "shape \<noteq> ''frustum'' \<Longrightarrow>
   fit_frustum_root params (solver_library shape ps) x y area start stop ma hs = None"
  by (simp add: fit_frustum_root_def solver_curve_fit Let_def split: sum.splits)

lemma cylinder_solver_root:
  "segment_and_fit_root DEFAULT_PARAMS_root (solver_library ''cylinder'' [5]) example_table
     = Inr ([(0, 11, ''cylinder'', [5])],
            [fit_error (\<lambda>h. volume_cylinder h 5) (map Height_mm example_table)
               (map Volume_mm3 example_table) / (last (map Volume_mm3 example_table) + 1 / 10 ^ 6)
               * 100])"
proof -
  have "fit_segment_root DEFAULT_PARAMS_root (solver_library ''cylinder'' [5]) example_table 0
             (int (length example_table) - 1)
      = Inr ((0, 11, ''cylinder'', [5]),
             fit_error (\<lambda>h. volume_cylinder h 5) (map Height_mm example_table)
               (map Volume_mm3 example_table) / (last (map Volume_mm3 example_table) + 1 / 10 ^ 6)
               * 100)"
    by (simp add: length_example_table example_segment_root solver_cylinder_root
        solver_not_frustum_root select_fit_two_models_def)
  from one_span_table_root[OF _ _ this] show ?thesis by (simp add: length_example_table)
qed

lemma frustum_solver_root:
  "segment_and_fit_root DEFAULT_PARAMS_root (solver_library ''frustum'' [4, 6, 11]) example_table
     = Inr ([(0, 11, ''frustum'', [4, 6, 11])],
            [fit_error (\<lambda>h. volume_frustum h 4 6 11) (map Height_mm example_table)
               (map Volume_mm3 example_table) / (last (map Volume_mm3 example_table) + 1 / 10 ^ 6)
               * 100])"
proof -
  have "fit_segment_root DEFAULT_PARAMS_root (solver_library ''frustum'' [4, 6, 11])
             example_table 0 (int (length example_table) - 1)
      = Inr ((0, 11, ''frustum'', [4, 6, 11]),
             fit_error (\<lambda>h. volume_frustum h 4 6 11) (map Height_mm example_table)
               (map Volume_mm3 example_table) / (last (map Volume_mm3 example_table) + 1 / 10 ^ 6)
               * 100)"
    by (simp add: length_example_table example_segment_root solver_frustum_root
        solver_not_cylinder_root select_fit_two_models_def)
  from one_span_table_root[OF _ _ this] show ?thesis by (simp add: length_example_table)
qed

lemma example_shapes_root:
  "map_sum id (\<lambda>(segs, errs). map (fst \<circ> snd \<circ> snd) segs)
      (segment_and_fit_root DEFAULT_PARAMS_root (solver_library ''cylinder'' [5]) example_table)
     = Inr [''cylinder'']
   \<and> map_sum id (\<lambda>(segs, errs). map (fst \<circ> snd \<circ> snd) segs)
      (segment_and_fit_root DEFAULT_PARAMS_root (solver_library ''frustum'' [4, 6, 11])
         example_table)
     = Inr [''frustum'']"
  by (simp add: cylinder_solver_root frustum_solver_root)

lemma cone_solver_root:
  "segment_and_fit_root DEFAULT_PARAMS_root (solver_library ''cone'' [6, 11]) example_table
     = Inr ([(0, 11, ''cylinder'', [sqrt (100 / pi)])], [0])"
proof -
  have "fit_segment_root DEFAULT_PARAMS_root (solver_library ''cone'' [6, 11]) example_table 0
             (int (length example_table) - 1)
      = Inr ((0, 11, ''cylinder'', [sqrt (100 / pi)]), 0)"
    by (simp add: length_example_table example_segment_root solver_not_frustum_root
        solver_not_cylinder_root select_fit_two_models_def)
  from one_span_table_root[OF _ _ this] show ?thesis by (simp add: length_example_table)
qed

text \<open>
  Claim C1, as amended. For every segment that is fitted, the top-level module (and version
  3.11.0) attempts two volume models, the cylinder and the frustum, each as one bounded
  least-squares call with the start values and bounds of the source, and the shape of every
  segment it returns is the cylinder or the frustum; each of the two is the shape of the
  segment of some run. The revision in \<^verbatim>\<open>src\<close> attempts four, the cylinder, the frustum,
  the cone and the sphere cap, in this order, each present among the candidates exactly when
  its bounded least-squares call returned parameters; the shape of a fitted segment is one
  of the four, and each of the four is the shape of the segment of some run (a table of
  twelve rows, with a solver that converges for that model).
\<close>

theorem fitted_models_of_both_copies:
  "(fit_cylinder_root params lib x y guess_r = Some c \<longleftrightarrow>
      (\<exists>r. curve_fit lib ''cylinder'' (map (\<lambda>xi. xi - hd x) x) (map (\<lambda>yi. yi - hd y) y)
              [guess_r] [0.5 * guess_r] [3 * guess_r] (maxfev params) = Some [r]
          \<and> c = (r, fit_error (\<lambda>h. volume_cylinder h r) x y,
                  fit_error (\<lambda>h. volume_cylinder h r) x y / (last y + 1 / 10 ^ 6) * 100)))
   \<and> (fit_frustum_root params lib x y area start stop mean_area height_span = Some f \<longleftrightarrow>
      (\<exists>area_start area_end r1 r2 H.
          (if start > 0 then py_index area start else Inr mean_area) = Inr area_start
        \<and> (if stop < int (length area) - 1 then py_index area stop else Inr mean_area)
            = Inr area_end
        \<and> curve_fit lib ''frustum'' (map (\<lambda>xi. xi - hd x) x) (map (\<lambda>yi. yi - hd y) y)
              [sqrt (area_start / pi), sqrt (area_end / pi), height_span]
              [0.5 * sqrt (area_start / pi), 0.5 * sqrt (area_end / pi), 0.8 * height_span]
              [3 * sqrt (area_start / pi), 3 * sqrt (area_end / pi), 1.2 * height_span]
              (maxfev params) = Some [r1, r2, H]
        \<and> f = ([r1, r2, H], fit_error (\<lambda>h. volume_frustum h r1 r2 H) x y,
                 fit_error (\<lambda>h. volume_frustum h r1 r2 H) x y / (last y + 1 / 10 ^ 6) * 100)))
   \<and> (fst (select_fit_two_models cyl frust guess_r) = ''cylinder''
        \<or> fst (select_fit_two_models cyl frust guess_r) = ''frustum'')
   \<and> (fit_segment_root params lib df_areas start stop = Inr ((a, b, shape, ps), e) \<longrightarrow>
        shape = ''cylinder'' \<or> shape = ''frustum'')
   \<and> (segment_and_fit_root params lib df_areas = Inr (segs, errs) \<longrightarrow>
        (\<forall>s \<in> set segs. fst (snd (snd s)) = ''cylinder'' \<or> fst (snd (snd s)) = ''frustum''))
   \<and> map_sum id (\<lambda>(segs, errs). map (fst \<circ> snd \<circ> snd) segs)
        (segment_and_fit_root DEFAULT_PARAMS_root (solver_library ''cylinder'' [5]) example_table)
       = Inr [''cylinder'']
   \<and> map_sum id (\<lambda>(segs, errs). map (fst \<circ> snd \<circ> snd) segs)
        (segment_and_fit_root DEFAULT_PARAMS_root (solver_library ''frustum'' [4, 6, 11])
           example_table)
       = Inr [''frustum'']
   \<and> (fit_cylinder params lib x y guess_r = Some c' \<longleftrightarrow>
      (\<exists>r. curve_fit lib ''cylinder'' (map (\<lambda>xi. xi - hd x) x) (map (\<lambda>yi. yi - hd y) y)
              [guess_r] [0.5 * guess_r] [3 * guess_r] (maxfev params) = Some [r]
          \<and> c' = (''cylinder'', [r], fit_error_pct (\<lambda>h. volume_cylinder h r) x y)))
   \<and> (fit_frustum params lib x y area start stop mean_area height_span = Some f' \<longleftrightarrow>
      (\<exists>area_start area_end r1 r2 H.
          (if start < int (length area) then py_index area start else Inr mean_area)
            = Inr area_start
        \<and> py_index area (min stop (int (length area) - 1)) = Inr area_end
        \<and> curve_fit lib ''frustum'' (map (\<lambda>xi. xi - hd x) x) (map (\<lambda>yi. yi - hd y) y)
              [sqrt (area_start / pi), sqrt (area_end / pi), height_span]
              [0.5 * sqrt (area_start / pi), 0.5 * sqrt (area_end / pi), 0.8 * height_span]
              [3 * sqrt (area_start / pi), 3 * sqrt (area_end / pi), 1.2 * height_span]
              (maxfev params) = Some [r1, r2, H]
        \<and> f' = (''frustum'', [r1, r2, H], fit_error_pct (\<lambda>h. volume_frustum h r1 r2 H) x y)))
   \<and> (fit_cone params lib x y area stop height_span = Some k \<longleftrightarrow>
      (\<exists>area_end r_base H.
          py_index area (min stop (int (length area) - 1)) = Inr area_end
        \<and> curve_fit lib ''cone'' (map (\<lambda>xi. xi - hd x) x) (map (\<lambda>yi. yi - hd y) y)
              [sqrt (area_end / pi), height_span]
              [0.1 * sqrt (area_end / pi), 0.5 * height_span]
              [5 * sqrt (area_end / pi), 2 * height_span]
              (maxfev params) = Some [r_base, H]
        \<and> k = (''cone'', [r_base, H], fit_error_pct (\<lambda>h. volume_cone h r_base H) x y)))
   \<and> (fit_sphere_cap params lib x y area start stop = Some q \<longleftrightarrow>
      (\<exists>R. py_slice area start (min (stop + 1) (int (length area))) \<noteq> []
        \<and> curve_fit lib ''sphere_cap'' (map (\<lambda>xi. xi - hd x) x) (map (\<lambda>yi. yi - hd y) y)
              [1.5 * sqrt (np_max (py_slice area start (min (stop + 1) (int (length area)))) / pi)]
              [0.5 * (1.5 * sqrt (np_max (py_slice area start (min (stop + 1) (int (length area))))
                                  / pi))]
              [10 * (1.5 * sqrt (np_max (py_slice area start (min (stop + 1) (int (length area))))
                                 / pi))]
              (maxfev params) = Some [R]
        \<and> q = (''sphere_cap'', [R], fit_error_pct (\<lambda>h. volume_sphere_cap h R) x y)))
   \<and> map fst (fit_results params lib x y area start stop mean_area guess_r height_span)
       = (if fit_cylinder params lib x y guess_r = None then [] else [''cylinder''])
         @ (if fit_frustum params lib x y area start stop mean_area height_span = None then []
            else [''frustum''])
         @ (if fit_cone params lib x y area stop height_span = None then [] else [''cone''])
         @ (if fit_sphere_cap params lib x y area start stop = None then []
            else [''sphere_cap''])
   \<and> (fit_segment params lib df_areas start stop = Inr ((a', b', shape', ps'), e') \<longrightarrow>
        shape' \<in> {''cylinder'', ''frustum'', ''cone'', ''sphere_cap''})
   \<and> map_sum id (\<lambda>(segs, errs). map (fst \<circ> snd \<circ> snd) segs)
        (segment_and_fit DEFAULT_PARAMS (solver_library ''cylinder'' [5]) example_table)
       = Inr [''cylinder'']
   \<and> map_sum id (\<lambda>(segs, errs). map (fst \<circ> snd \<circ> snd) segs)
        (segment_and_fit DEFAULT_PARAMS (solver_library ''frustum'' [4, 6, 11]) example_table)
       = Inr [''frustum'']
   \<and> map_sum id (\<lambda>(segs, errs). map (fst \<circ> snd \<circ> snd) segs)
        (segment_and_fit DEFAULT_PARAMS (solver_library ''cone'' [6, 11]) example_table)
       = Inr [''cone'']
   \<and> map_sum id (\<lambda>(segs, errs). map (fst \<circ> snd \<circ> snd) segs)
        (segment_and_fit DEFAULT_PARAMS (solver_library ''sphere_cap'' [20]) example_table)
       = Inr [''sphere_cap'']"
proof -
  note root =
    fit_cylinder_root_call[of params lib x y guess_r c]
    fit_frustum_root_call[of params lib x y area start stop mean_area height_span f]
  note src =
    fit_cylinder_call[of params lib x y guess_r c']
    fit_frustum_call[of params lib x y area start stop mean_area height_span f']
    fit_cone_call[of params lib x y area stop height_span k]
    fit_sphere_cap_call[of params lib x y area start stop q]
  have s1: "fit_segment_root params lib df_areas start stop = Inr ((a, b, shape, ps), e) \<longrightarrow>
        shape = ''cylinder'' \<or> shape = ''frustum''"
    using fit_segment_root_shape by blast
  have s2: "segment_and_fit_root params lib df_areas = Inr (segs, errs) \<longrightarrow>
        (\<forall>s \<in> set segs. fst (snd (snd s)) = ''cylinder'' \<or> fst (snd (snd s)) = ''frustum'')"
    using segment_and_fit_root_shapes by blast
  have s3: "fit_segment params lib df_areas start stop = Inr ((a', b', shape', ps'), e') \<longrightarrow>
        shape' \<in> {''cylinder'', ''frustum'', ''cone'', ''sphere_cap''}"
    using fit_segment_shape by blast
  show ?thesis
    apply (intro conjI)
                   apply (rule root(1))
                  apply (rule root(2))
                  apply (rule select_fit_two_models_shape)
                 apply (rule s1)
                apply (rule s2)
               apply (rule example_shapes_root[THEN conjunct1])
              apply (rule example_shapes_root[THEN conjunct2])
             apply (rule src(1))
            apply (rule src(2))
           apply (rule src(3))
          apply (rule src(4))
         apply (rule fit_results_shapes)
        apply (rule s3)
       apply (rule example_shapes[THEN conjunct1])
      apply (rule example_shapes[THEN conjunct2, THEN conjunct1])
     apply (rule example_shapes[THEN conjunct2, THEN conjunct2, THEN conjunct1])
    apply (rule example_shapes[THEN conjunct2, THEN conjunct2, THEN conjunct2])
    done
qed

theorem fitted_models_of_both_copies_witness:
  "segment_and_fit_root DEFAULT_PARAMS_root (solver_library ''frustum'' [4, 6, 11]) example_table
     = Inr ([(0, 11, ''frustum'', [4, 6, 11])],
            [fit_error (\<lambda>h. volume_frustum h 4 6 11) (map Height_mm example_table)
               (map Volume_mm3 example_table) / (last (map Volume_mm3 example_table) + 1 / 10 ^ 6)
               * 100])
   \<and> ''frustum'' \<in> {''cylinder'', ''frustum''}
   \<and> fit_segment DEFAULT_PARAMS (solver_library ''cone'' [6, 11]) example_table 0 11
     = Inr ((0, 11, ''cone'', [6, 11]),
            fit_error_pct (\<lambda>h. volume_cone h 6 11) (map Height_mm example_table)
              (map Volume_mm3 example_table))
   \<and> ''cone'' \<in> {''cylinder'', ''frustum'', ''cone'', ''sphere_cap''}"
  using fitted_models_of_both_copies[where params = DEFAULT_PARAMS_root
        and lib = "solver_library ''frustum'' [4, 6, 11]" and df_areas = example_table
        and start = 0 and stop = 11 and segs = "[(0, 11, ''frustum'', [4, 6, 11])]"]
    fitted_models_of_both_copies[where params = DEFAULT_PARAMS
        and lib = "solver_library ''cone'' [6, 11]" and df_areas = example_table
        and start = 0 and stop = 11 and a' = 0 and b' = 11 and shape' = "''cone''"
        and ps' = "[6, 11]"]
    frustum_solver_root cone_segment_example
  by simp

text \<open>
  The claim as stated fails on the top-level module: it never passes the cone or the sphere
  cap to the solver. With a solver that converges for the cone alone, on a table of twelve
  rows, it returns the fallback cylinder of the guessed radius with error 0, where the
  revision returns the cone.
\<close>

theorem cone_is_never_attempted_by_root_module:
  "segment_and_fit_root DEFAULT_PARAMS_root (solver_library ''cone'' [6, 11]) example_table
     = Inr ([(0, 11, ''cylinder'', [sqrt (100 / pi)])], [0])
   \<and> map_sum id (\<lambda>(segs, errs). map (fst \<circ> snd \<circ> snd) segs)
        (segment_and_fit DEFAULT_PARAMS (solver_library ''cone'' [6, 11]) example_table)
       = Inr [''cone'']"
  using cone_solver_root example_shapes by simp

subsection \<open>The near-cylindrical frustum\<close>

lemma fit_error_nonneg: "0 \<le> fit_error model x y"
proof -
  have "0 \<le> sum_list (map (\<lambda>(xi, yi). \<bar>model (xi - hd x) + hd y - yi\<bar>) (zip x y))"
    by (rule sum_list_nonneg) auto
  then show ?thesis by (simp add: fit_error_def np_mean_def)
qed

lemma fit_error_exact:
  assumes "x \<noteq> []" and "hd x = 0" and "model 0 = 0"
  shows "fit_error model x (map model x) = 0"
proof -
  have "hd (map model x) = 0" using assms by (simp add: hd_map)
  then have "map (\<lambda>(xi, yi). \<bar>model (xi - hd x) + hd (map model x) - yi\<bar>) (zip x (map model x))
        = map (\<lambda>_. 0) x"
    using assms(2) by (simp add: zip_map2 zip_same_conv_map comp_def case_prod_beta)
  then show ?thesis by (simp add: fit_error_def np_mean_def)
qed

lemma length_frustum_table: "length frustum_table = 12"
  by (simp add: frustum_table_def)

lemma frustum_table_volumes:
  "map Volume_mm3 frustum_table
     = map (\<lambda>h. volume_frustum h 10 (51 / 5) 11) (map Height_mm frustum_table)"
  by (simp add: frustum_table_def comp_def)

lemma frustum_table_exact:
  "fit_error (\<lambda>h. volume_frustum h 10 (51 / 5) 11) (map Height_mm frustum_table)
     (map Volume_mm3 frustum_table) = 0"
  unfolding frustum_table_volumes
  by (rule fit_error_exact) (simp_all add: frustum_table_def volume_frustum_def upt_rec)

lemma frustum_table_segment_root:
  "fit_segment_root DEFAULT_PARAMS_root two_model_library frustum_table 0 11
     = Inr ((0, 11, ''frustum'', [10, 51 / 5, 11]), 0)"
proof -
  have s: "py_slice (map f frustum_table) 0 12 = map f frustum_table" for f :: "df_row \<Rightarrow> real"
    by (rule py_slice_whole) (simp add: length_frustum_table)
  have ne: "map Height_mm frustum_table \<noteq> []" by (simp add: frustum_table_def)
  define x where "x = map Height_mm frustum_table"
  define y where "y = map Volume_mm3 frustum_table"
  have cyl: "fit_cylinder_root DEFAULT_PARAMS_root two_model_library x y g
      = Some (252 / 25, fit_error (\<lambda>h. volume_cylinder h (252 / 25)) x y,
              fit_error (\<lambda>h. volume_cylinder h (252 / 25)) x y / (last y + 1 / 10 ^ 6) * 100)" for g
    by (simp add: fit_cylinder_root_def two_model_library_def Let_def)
  have fr: "fit_frustum_root DEFAULT_PARAMS_root two_model_library x y (map Area frustum_table)
              0 11 ma hs
      = Some ([10, 51 / 5, 11], 0, 0)" for ma hs
    using frustum_table_exact
    by (simp add: fit_frustum_root_def two_model_library_def Let_def length_frustum_table
        x_def y_def)
  have sel: "select_fit_two_models (Some (r, ce, cp)) (Some (ps, 0, 0)) g = (''frustum'', ps, 0)"
    if "0 \<le> ce" for r ce cp ps g
    using that by (simp add: select_fit_two_models_def)
  show ?thesis
    using ne
    by (simp add: fit_segment_root_def Let_def s cyl[unfolded x_def y_def]
        fr[unfolded x_def y_def] sel fit_error_nonneg)
qed

lemma frustum_table_root:
  "segment_and_fit_root DEFAULT_PARAMS_root two_model_library frustum_table
     = Inr ([(0, 11, ''frustum'', [10, 51 / 5, 11])], [0])"
proof -
  have "fit_segment_root DEFAULT_PARAMS_root two_model_library frustum_table 0
          (int (length frustum_table) - 1)
        = Inr ((0, 11, ''frustum'', [10, 51 / 5, 11]), 0)"
    by (simp add: length_frustum_table frustum_table_segment_root)
  from one_span_table_root[OF _ _ this] show ?thesis by (simp add: length_frustum_table)
qed

lemma fit_segment_root_selection:
  assumes "fit_segment_root params lib df_areas start stop = Inr ((a, b, shape, ps), e)"
  shows "(shape, ps, e)
           = select_fit_two_models
               (fit_cylinder_root params lib
                  (py_slice (map Height_mm df_areas) start (stop + 1))
                  (py_slice (map Volume_mm3 df_areas) start (stop + 1))
                  (sqrt (np_median (py_slice (map Area df_areas) start (stop + 1)) / pi)))
               (fit_frustum_root params lib
                  (py_slice (map Height_mm df_areas) start (stop + 1))
                  (py_slice (map Volume_mm3 df_areas) start (stop + 1))
                  (map Area df_areas) start stop
                  (np_median (py_slice (map Area df_areas) start (stop + 1)))
                  (last (py_slice (map Height_mm df_areas) start (stop + 1))
                   - hd (py_slice (map Height_mm df_areas) start (stop + 1))))
               (sqrt (np_median (py_slice (map Area df_areas) start (stop + 1)) / pi))"
  using assms by (auto simp: fit_segment_root_def Let_def split: if_splits prod.splits)

lemma fit_segment_selection:
  assumes "fit_segment params lib df_areas start stop = Inr ((a, b, shape, ps), e)"
    and "fit_results params lib
           (py_slice (map Height_mm df_areas) start (stop + 1))
           (py_slice (map Volume_mm3 df_areas) start (stop + 1))
           (map Area df_areas) start stop
           (np_median (py_slice (map Area df_areas) start (stop + 1)))
           (sqrt (np_median (py_slice (map Area df_areas) start (stop + 1)) / pi))
           (last (py_slice (map Height_mm df_areas) start (stop + 1))
            - hd (py_slice (map Height_mm df_areas) start (stop + 1))) \<noteq> []"
  shows "(shape, ps, e)
           = select_best_fit
               (fit_results params lib
                  (py_slice (map Height_mm df_areas) start (stop + 1))
                  (py_slice (map Volume_mm3 df_areas) start (stop + 1))
                  (map Area df_areas) start stop
                  (np_median (py_slice (map Area df_areas) start (stop + 1)))
                  (sqrt (np_median (py_slice (map Area df_areas) start (stop + 1)) / pi))
                  (last (py_slice (map Height_mm df_areas) start (stop + 1))
                   - hd (py_slice (map Height_mm df_areas) start (stop + 1))))"
  using assms by (auto simp: fit_segment_def Let_def split: if_splits prod.splits)

text \<open>
  Claim C4, as amended. The top-level module (and version 3.11.0, which selects by the same
  rule) has no cylinder preference: the fit of a segment is the selection between its
  cylinder fit and its frustum fit, and when the frustum fit returned, the selection is the
  cylinder only if the cylinder fit returned with a strictly smaller mean absolute error,
  and the frustum otherwise, whatever its two radii. In the revision in \<^verbatim>\<open>src\<close>, the fit
  of a segment with a candidate is the selection among its candidates, and when the
  candidate with the lowest adjusted error is a frustum whose two radii differ by less than
  5 percent of the larger one, the selection is the first cylinder candidate if that
  candidate's raw error is at most 1.2 times the frustum's error, the frustum itself if the
  cylinder candidate's error is larger, and a cylinder of the mean of the two radii (with
  the frustum's error) if there is no cylinder candidate.
\<close>

theorem near_cylindrical_frustum_selection:
  "(fit_segment_root params lib df_areas start stop = Inr ((a, b, shape, ps), e) \<longrightarrow>
      (shape, ps, e)
        = select_fit_two_models
            (fit_cylinder_root params lib
               (py_slice (map Height_mm df_areas) start (stop + 1))
               (py_slice (map Volume_mm3 df_areas) start (stop + 1))
               (sqrt (np_median (py_slice (map Area df_areas) start (stop + 1)) / pi)))
            (fit_frustum_root params lib
               (py_slice (map Height_mm df_areas) start (stop + 1))
               (py_slice (map Volume_mm3 df_areas) start (stop + 1))
               (map Area df_areas) start stop
               (np_median (py_slice (map Area df_areas) start (stop + 1)))
               (last (py_slice (map Height_mm df_areas) start (stop + 1))
                - hd (py_slice (map Height_mm df_areas) start (stop + 1))))
            (sqrt (np_median (py_slice (map Area df_areas) start (stop + 1)) / pi)))
   \<and> select_fit_two_models cyl (Some ([r1, r2, H], frust_error, frust_error_pct)) guess_r
     = (case cyl of
          Some (r, cyl_error, cyl_error_pct) \<Rightarrow>
            if cyl_error < frust_error then (''cylinder'', [r], cyl_error_pct)
            else (''frustum'', [r1, r2, H], frust_error_pct)
        | None \<Rightarrow> (''frustum'', [r1, r2, H], frust_error_pct))
   \<and> (fit_segment params lib df_areas start stop = Inr ((a', b', shape', ps'), e')
        \<and> fit_results params lib
           (py_slice (map Height_mm df_areas) start (stop + 1))
           (py_slice (map Volume_mm3 df_areas) start (stop + 1))
           (map Area df_areas) start stop
           (np_median (py_slice (map Area df_areas) start (stop + 1)))
           (sqrt (np_median (py_slice (map Area df_areas) start (stop + 1)) / pi))
           (last (py_slice (map Height_mm df_areas) start (stop + 1))
            - hd (py_slice (map Height_mm df_areas) start (stop + 1))) \<noteq> [] \<longrightarrow>
      (shape', ps', e')
        = select_best_fit
            (fit_results params lib
               (py_slice (map Height_mm df_areas) start (stop + 1))
               (py_slice (map Volume_mm3 df_areas) start (stop + 1))
               (map Area df_areas) start stop
               (np_median (py_slice (map Area df_areas) start (stop + 1)))
               (sqrt (np_median (py_slice (map Area df_areas) start (stop + 1)) / pi))
               (last (py_slice (map Height_mm df_areas) start (stop + 1))
                - hd (py_slice (map Height_mm df_areas) start (stop + 1)))))
   \<and> (best_adjusted results = (''frustum'', [r1, r2, H], best_error)
        \<and> 0 < max r1 r2 \<and> \<bar>r2 - r1\<bar> / max r1 r2 < 0.05 \<longrightarrow>
      select_best_fit results =
        (case filter (\<lambda>f. fst f = ''cylinder'') results of
           (cyl_shape, cyl_params, cyl_err) # others \<Rightarrow>
             if cyl_err \<le> best_error * 1.2 then (''cylinder'', cyl_params, cyl_err)
             else (''frustum'', [r1, r2, H], best_error)
         | [] \<Rightarrow> (''cylinder'', [(r1 + r2) / 2], best_error)))"
proof -
  have sel: "select_fit_two_models cyl (Some ([r1, r2, H], frust_error, frust_error_pct)) guess_r
     = (case cyl of
          Some (r, cyl_error, cyl_error_pct) \<Rightarrow>
            if cyl_error < frust_error then (''cylinder'', [r], cyl_error_pct)
            else (''frustum'', [r1, r2, H], frust_error_pct)
        | None \<Rightarrow> (''frustum'', [r1, r2, H], frust_error_pct))"
    by (simp add: select_fit_two_models_def split: option.splits)
  have pref: "best_adjusted results = (''frustum'', [r1, r2, H], best_error)
        \<and> 0 < max r1 r2 \<and> \<bar>r2 - r1\<bar> / max r1 r2 < 0.05 \<longrightarrow>
      select_best_fit results =
        (case filter (\<lambda>f. fst f = ''cylinder'') results of
           (cyl_shape, cyl_params, cyl_err) # others \<Rightarrow>
             if cyl_err \<le> best_error * 1.2 then (''cylinder'', cyl_params, cyl_err)
             else (''frustum'', [r1, r2, H], best_error)
         | [] \<Rightarrow> (''cylinder'', [(r1 + r2) / 2], best_error))"
    by (simp add: select_best_fit_def cylinder_preference_def Let_def split: list.splits)
  show ?thesis
    using fit_segment_root_selection[of params lib df_areas start stop a b shape ps e]
      fit_segment_selection[of params lib df_areas start stop a' b' shape' ps' e']
      sel pref
    by blast
qed

lemma cone_results_example:
  "fit_results DEFAULT_PARAMS (solver_library ''cone'' [6, 11])
       (py_slice (map Height_mm example_table) 0 (11 + 1))
       (py_slice (map Volume_mm3 example_table) 0 (11 + 1))
       (map Area example_table) 0 11
       (np_median (py_slice (map Area example_table) 0 (11 + 1)))
       (sqrt (np_median (py_slice (map Area example_table) 0 (11 + 1)) / pi))
       (last (py_slice (map Height_mm example_table) 0 (11 + 1))
        - hd (py_slice (map Height_mm example_table) 0 (11 + 1))) \<noteq> []"
proof -
  have nea: "map Area example_table \<noteq> []" by (simp add: example_table_def)
  have "fit_results DEFAULT_PARAMS (solver_library ''cone'' [6, 11]) x y
          (map Area example_table) 0 11 ma g hs
        = [(''cone'', [6, 11], fit_error_pct (\<lambda>h. volume_cone h 6 11) x y)]" for x y ma g hs
    by (rule solver_cone[OF nea]) (simp add: length_example_table)
  then show ?thesis by simp
qed

theorem near_cylindrical_frustum_selection_witness:
  "fit_segment_root DEFAULT_PARAMS_root two_model_library frustum_table 0 11
     = Inr ((0, 11, ''frustum'', [10, 51 / 5, 11]), 0)
   \<and> select_fit_two_models (Some (252 / 25, 3, 1 / 4)) (Some ([10, 51 / 5, 11], 0, 0)) 10
     = (''frustum'', [10, 51 / 5, 11], 0)
   \<and> fit_segment DEFAULT_PARAMS (solver_library ''cone'' [6, 11]) example_table 0 11
     = Inr ((0, 11, ''cone'', [6, 11]),
            fit_error_pct (\<lambda>h. volume_cone h 6 11) (map Height_mm example_table)
              (map Volume_mm3 example_table))
   \<and> fit_results DEFAULT_PARAMS (solver_library ''cone'' [6, 11])
       (py_slice (map Height_mm example_table) 0 (11 + 1))
       (py_slice (map Volume_mm3 example_table) 0 (11 + 1))
       (map Area example_table) 0 11
       (np_median (py_slice (map Area example_table) 0 (11 + 1)))
       (sqrt (np_median (py_slice (map Area example_table) 0 (11 + 1)) / pi))
       (last (py_slice (map Height_mm example_table) 0 (11 + 1))
        - hd (py_slice (map Height_mm example_table) 0 (11 + 1))) \<noteq> []
   \<and> best_adjusted [(''cylinder'', [10.1], 4), (''frustum'', [10, 10.2, 5], 3.5)]
     = (''frustum'', [10, 10.2, 5], 3.5)
   \<and> (0::real) < max 10 10.2 \<and> \<bar>10.2 - 10\<bar> / max 10 10.2 < (0.05::real)
   \<and> select_best_fit [(''cylinder'', [10.1], 4), (''frustum'', [10, 10.2, 5], 3.5)]
       = (''cylinder'', [10.1], 4)"
proof -
  have b: "best_adjusted [(''cylinder'', [10.1], 4), (''frustum'', [10, 10.2, 5], 3.5)]
             = (''frustum'', [10, 10.2, 5], 3.5)"
    by (simp add: best_adjusted_def adjusted_error_def)
  have g: "(0::real) < max 10 10.2 \<and> \<bar>10.2 - 10\<bar> / max 10 10.2 < (0.05::real)" by simp
  note t1 = near_cylindrical_frustum_selection[of DEFAULT_PARAMS_root two_model_library
        frustum_table 0 11 0 11 "''frustum''" "[10, 51 / 5, 11]" 0
        "Some (252 / 25, 3, 1 / 4)" 10 "51 / 5" 11 0 0 10]
  note t2 = near_cylindrical_frustum_selection[of DEFAULT_PARAMS "solver_library ''cone'' [6, 11]"
        example_table 0 11 _ _ _ _ _ None 10 "10.2" 5 _ _ _ 0 11 "''cone''" "[6, 11]"
        "fit_error_pct (\<lambda>h. volume_cone h 6 11) (map Height_mm example_table)
              (map Volume_mm3 example_table)"
        "[(''cylinder'', [10.1], 4), (''frustum'', [10, 10.2, 5], 3.5)]" "3.5"]
  have s: "select_best_fit [(''cylinder'', [10.1], 4), (''frustum'', [10, 10.2, 5], 3.5)]
       = (''cylinder'', [10.1], 4)"
    using t2 b g by simp
  have r: "select_fit_two_models (Some (252 / 25, 3, 1 / 4)) (Some ([10, 51 / 5, 11], 0, 0)) 10
     = (''frustum'', [10, 51 / 5, 11], 0)"
    using t1 by simp
  show ?thesis
    using frustum_table_segment_root r cone_segment_example cone_results_example b g s
    by blast
qed

text \<open>
  The claim as stated fails on the top-level module: on a table measured on a frustum whose
  radii 10 and 10.2 differ by 2 percent, with a solver that returns this frustum (error 0)
  and a cylinder, the segment is returned as a frustum.
\<close>

theorem near_cylindrical_frustum_stays_frustum:
  "segment_and_fit_root DEFAULT_PARAMS_root two_model_library frustum_table
     = Inr ([(0, 11, ''frustum'', [10, 51 / 5, 11])], [0])
   \<and> \<bar>51 / 5 - 10\<bar> / max 10 (51 / 5) < (0.05 :: real)"
  using frustum_table_root by simp

text \<open>
  The guard of the revision at work: a frustum with radii 10 and 10.2 and error 1, next to a
  cylinder candidate of error 2, is selected and stays a frustum.
\<close>

lemma frustum_kept_by_the_guard:
  "best_adjusted [(''cylinder'', [10.1], 2), (''frustum'', [10, 10.2, 5], 1)]
     = (''frustum'', [10, 10.2, 5], 1)
   \<and> \<bar>10.2 - 10\<bar> / max 10 10.2 < (0.05::real)
   \<and> select_best_fit [(''cylinder'', [10.1], 2), (''frustum'', [10, 10.2, 5], 1)]
       = (''frustum'', [10, 10.2, 5], 1)"
  by (simp add: select_best_fit_def cylinder_preference_def best_adjusted_def
      adjusted_error_def Let_def)

subsection \<open>Validation of candidate boundaries\<close>

lemma accept_candidates_spaced:
  "0 \<le> mp \<Longrightarrow> sorted_wrt (\<lambda>a b. a + mp \<le> b) (l # accept_candidates mp n l cands)"
proof (induction cands arbitrary: l)
  case Nil
  then show ?case by simp
next
  case (Cons c cands)
  show ?case
  proof (cases "c - l \<ge> mp \<and> c < n - 1")
    case True
    have ih: "sorted_wrt (\<lambda>a b. a + mp \<le> b) (c # accept_candidates mp n c cands)"
      using Cons.IH[OF Cons.prems] .
    then have "\<forall>b \<in> set (accept_candidates mp n c cands). c + mp \<le> b" by simp
    then have "\<forall>b \<in> set (accept_candidates mp n c cands). l + mp \<le> b"
      using True Cons.prems by fastforce
    then show ?thesis using True ih by simp
  next
    case False
    then show ?thesis using Cons.IH[OF Cons.prems, of l] by auto
  qed
qed

lemma accept_candidates_below:
  "c \<in> set (accept_candidates mp n l cands) \<Longrightarrow> c < n - 1"
  by (induction cands arbitrary: l) (auto split: if_splits)

lemma enforce_spacing_shape:
  assumes "1 \<le> mp" and "2 \<le> n"
  shows "enforce_spacing mp n cands = 0 # accept_candidates mp n 0 (sort cands) @ [n - 1]"
proof -
  let ?acc = "accept_candidates mp n 0 (sort cands)"
  have "last (0 # ?acc) \<noteq> n - 1"
  proof (cases "?acc = []")
    case True
    then show ?thesis using assms(2) by simp
  next
    case False
    then have "last ?acc \<in> set ?acc" by simp
    then have "last ?acc < n - 1" by (rule accept_candidates_below)
    then show ?thesis using False by simp
  qed
  then show ?thesis by (simp add: enforce_spacing_def Let_def)
qed

lemma enforce_spacing_increasing:
  assumes "1 \<le> mp" and "2 \<le> n"
  shows "sorted_wrt (<) (enforce_spacing mp n cands)"
proof -
  let ?acc = "accept_candidates mp n 0 (sort cands)"
  have sp: "sorted_wrt (\<lambda>a b. a + mp \<le> b) (0 # ?acc)"
    using accept_candidates_spaced[of mp 0 n "sort cands"] assms(1) by simp
  have "sorted_wrt (<) (0 # ?acc)"
    by (rule sorted_wrt_mono_rel[OF _ sp]) (use assms(1) in auto)
  moreover have "\<forall>c \<in> set (0 # ?acc). c < n - 1"
    using accept_candidates_below[of _ mp n 0 "sort cands"] assms(2) by auto
  ultimately have "sorted_wrt (<) ((0 # ?acc) @ [n - 1])"
    by (simp add: sorted_wrt_append)
  then show ?thesis using enforce_spacing_shape[OF assms] by simp
qed

lemma enforce_spacing_gap:
  assumes "1 \<le> mp" and "2 \<le> n" and "i + 2 < length (enforce_spacing mp n cands)"
  shows "enforce_spacing mp n cands ! i + mp \<le> enforce_spacing mp n cands ! (i + 1)"
proof -
  let ?acc = "accept_candidates mp n 0 (sort cands)"
  have sh: "enforce_spacing mp n cands = (0 # ?acc) @ [n - 1]"
    using enforce_spacing_shape[OF assms(1,2)] by simp
  have len: "i + 1 < length (0 # ?acc)" using assms(3) sh by simp
  have sp: "sorted_wrt (\<lambda>a b. a + mp \<le> b) (0 # ?acc)"
    using accept_candidates_spaced[of mp 0 n "sort cands"] assms(1) by simp
  have "(0 # ?acc) ! i + mp \<le> (0 # ?acc) ! (i + 1)"
    using sorted_wrt_nth_less[OF sp, of i "i + 1"] len by simp
  moreover have "enforce_spacing mp n cands ! k = (0 # ?acc) ! k" if "k < length (0 # ?acc)" for k
    using that by (simp only: sh nth_append if_True)
  ultimately show ?thesis using len by simp
qed

lemma set_validate_transitions:
  assumes "transitions \<noteq> []"
  shows "set (validate_transitions area mp transitions)
         = insert (hd transitions) (insert (last transitions)
             ((\<lambda>i. transitions ! (i + 1))
                ` {i. i + 1 < length transitions \<and> segment_kept area mp transitions i}))"
proof -
  define validated where "validated = hd transitions
              # map (\<lambda>i. transitions ! (i + 1))
                  (filter (segment_kept area mp transitions) [0..<length transitions - 1])"
  define validated' where "validated' =
            (if validated = [] \<or> last validated \<noteq> last transitions
             then validated @ [last transitions]
             else validated)"
  have ne: "validated \<noteq> []" by (simp add: validated_def)
  have s1: "set validated = insert (hd transitions)
             ((\<lambda>i. transitions ! (i + 1))
                ` {i. i + 1 < length transitions \<and> segment_kept area mp transitions i})"
    by (auto simp: validated_def)
  have "last validated \<in> set validated" using ne by (rule last_in_set)
  then have s2: "set validated' = insert (last transitions) (set validated)"
    by (auto simp: validated'_def)
  have "validate_transitions area mp transitions = sort (remdups validated')"
    by (simp add: validate_transitions_def validated_def validated'_def Let_def)
  then show ?thesis using s1 s2 by auto
qed

lemma validation_membership:
  assumes "1 \<le> mp" and "2 \<le> n" and "i + 1 < length (enforce_spacing mp n candidates)"
  shows "(enforce_spacing mp n candidates ! (i + 1)
            \<in> set (validate_transitions area mp (enforce_spacing mp n candidates))
          \<longleftrightarrow> 2 \<le> passed_criteria (py_slice area (enforce_spacing mp n candidates ! i)
                                      (enforce_spacing mp n candidates ! (i + 1) + 1))
              \<or> i = 0 \<or> i + 2 = length (enforce_spacing mp n candidates))
       \<and> 0 \<in> set (validate_transitions area mp (enforce_spacing mp n candidates))
       \<and> n - 1 \<in> set (validate_transitions area mp (enforce_spacing mp n candidates))"
proof -
  define T where "T = enforce_spacing mp n candidates"
  have sh: "T = 0 # accept_candidates mp n 0 (sort candidates) @ [n - 1]"
    unfolding T_def by (rule enforce_spacing_shape[OF assms(1,2)])
  have ne: "T \<noteq> []" using sh by simp
  have hd: "hd T = 0" using sh by simp
  have lst: "last T = n - 1" using sh by simp
  have inc: "sorted_wrt (<) T" unfolding T_def by (rule enforce_spacing_increasing[OF assms(1,2)])
  then have dist: "distinct T" by (simp add: strict_sorted_iff)
  have i: "i + 1 < length T" using assms(3) by (simp add: T_def)
  have setV: "set (validate_transitions area mp T)
         = insert 0 (insert (n - 1)
             ((\<lambda>j. T ! (j + 1)) ` {j. j + 1 < length T \<and> segment_kept area mp T j}))"
    using set_validate_transitions[OF ne, of area mp] hd lst by simp
  have not_first: "T ! (i + 1) \<noteq> 0"
  proof -
    have "T ! 0 < T ! (i + 1)" using sorted_wrt_nth_less[OF inc, of 0 "i + 1"] i by simp
    then show ?thesis using sh by simp
  qed
  have is_last: "T ! (i + 1) = n - 1 \<longleftrightarrow> i + 2 = length T"
  proof -
    have "T ! (length T - 1) = n - 1" using lst ne by (simp add: last_conv_nth)
    then have "T ! (i + 1) = n - 1 \<longleftrightarrow> i + 1 = length T - 1"
      using dist i ne by (metis diff_less length_greater_0_conv nth_eq_iff_index_eq zero_less_one)
    then show ?thesis using i by auto
  qed
  have img: "T ! (i + 1) \<in> (\<lambda>j. T ! (j + 1)) ` {j. j + 1 < length T \<and> segment_kept area mp T j}
             \<longleftrightarrow> segment_kept area mp T i"
  proof
    assume "T ! (i + 1) \<in> (\<lambda>j. T ! (j + 1)) ` {j. j + 1 < length T \<and> segment_kept area mp T j}"
    then obtain j where j: "j + 1 < length T" "segment_kept area mp T j" "T ! (i + 1) = T ! (j + 1)"
      by auto
    then have "i + 1 = j + 1" using dist i by (simp add: nth_eq_iff_index_eq)
    then show "segment_kept area mp T i" using j(2) by simp
  next
    assume "segment_kept area mp T i"
    then show "T ! (i + 1) \<in> (\<lambda>j. T ! (j + 1)) ` {j. j + 1 < length T \<and> segment_kept area mp T j}"
      using i by blast
  qed
  have mem: "T ! (i + 1) \<in> set (validate_transitions area mp T)
             \<longleftrightarrow> segment_kept area mp T i \<or> i + 2 = length T"
    using setV not_first is_last img by auto
  have kept: "segment_kept area mp T i
        \<longleftrightarrow> 2 \<le> passed_criteria (py_slice area (T ! i) (T ! (i + 1) + 1)) \<or> i = 0"
    if "i + 2 \<noteq> length T"
  proof -
    have "i + 2 < length T" using i that by simp
    then have "T ! i + mp \<le> T ! (i + 1)"
      unfolding T_def by (rule enforce_spacing_gap[OF assms(1,2)])
    then have "\<not> T ! (i + 1) - T ! i + 1 < mp" by simp
    moreover have "int i \<noteq> int (length T) - 2" using that by linarith
    ultimately show ?thesis by (simp add: segment_kept_def Let_def)
  qed
  have "T ! (i + 1) \<in> set (validate_transitions area mp T)
          \<longleftrightarrow> 2 \<le> passed_criteria (py_slice area (T ! i) (T ! (i + 1) + 1))
              \<or> i = 0 \<or> i + 2 = length T"
    using mem kept by blast
  moreover have "0 \<in> set (validate_transitions area mp T)" using setV by simp
  moreover have "n - 1 \<in> set (validate_transitions area mp T)" using setV by simp
  ultimately show ?thesis unfolding T_def by blast
qed

lemma passed_criteria_thresholds:
  "3 < length seg_area \<Longrightarrow>
   passed_criteria seg_area
     = of_bool (np_std seg_area / (np_mean seg_area + 1 / 10 ^ 8) > 0.05)
       + of_bool (case np_corrcoef (butlast seg_area) (tl seg_area) of
                    None \<Rightarrow> False | Some correlation \<Rightarrow> \<bar>correlation\<bar> > 0.4)
       + of_bool (r_squared seg_area > 0.65)"
  by (simp add: passed_criteria_def has_variation_def has_structure_def fits_model_def)

lemma constant_stats:
  "0 < k \<Longrightarrow> np_mean (replicate k c) = c"
  by (simp add: np_mean_def sum_list_replicate)

lemma sum_list_zero: "(\<And>p. p \<in> set ps \<Longrightarrow> f p = (0::real)) \<Longrightarrow> sum_list (map f ps) = 0"
  by (induction ps) auto

lemma r_squared_constant:
  assumes "0 < k"
  shows "r_squared (replicate k c) = 1"
proof -
  let ?z = "np_arange (length (replicate k c))"
  have m: "np_mean (replicate k c) = c" using assms by (rule constant_stats)
  have num: "sum_list (map (\<lambda>(a, b). (a - np_mean ?z) * (b - c))
               (zip ?z (replicate k c))) = 0"
    by (rule sum_list_zero) (auto dest: set_zip_rightD)
  have pf: "np_polyfit1 ?z (replicate k c) = (0, c)"
    by (simp add: np_polyfit1_def Let_def num m del: length_replicate)
  have res: "sum_list (map (\<lambda>(a, p). (a - p)\<^sup>2)
               (zip (replicate k c) (map (\<lambda>zi. 0 * zi + c) ?z))) = 0"
  proof (rule sum_list_zero)
    fix p assume "p \<in> set (zip (replicate k c) (map (\<lambda>zi. 0 * zi + c) ?z))"
    then have "fst p \<in> set (replicate k c)" and "snd p \<in> set (map (\<lambda>zi. 0 * zi + c) ?z)"
      by (metis prod.collapse set_zip_leftD, metis prod.collapse set_zip_rightD)
    then have "fst p = c" and "snd p = c" by auto
    then show "(case p of (a, p) \<Rightarrow> (a - p)\<^sup>2) = 0" by (cases p) simp
  qed
  show ?thesis
    using res by (simp add: r_squared_def Let_def pf del: length_replicate)
qed

lemma passed_constant:
  "passed_criteria (replicate 16 100) = 1"
proof -
  have m: "np_mean (replicate 16 (100::real)) = 100" by (simp add: constant_stats)
  have v: "\<not> has_variation (replicate 16 100)"
    by (simp add: has_variation_def np_std_def np_var_def m) (simp add: np_mean_def sum_list_replicate)
  have m15: "np_mean (replicate 15 (100::real)) = 100" by (simp add: constant_stats)
  have bl: "butlast (replicate 16 (100::real)) = replicate 15 100"
    by (simp add: butlast_conv_take)
  have tl: "tl (replicate 16 (100::real)) = replicate 15 100"
    by (simp add: numeral_eq_Suc)
  have z: "zip (replicate 15 (100::real)) (replicate 15 (100::real)) = replicate 15 (100, 100)"
    by (simp add: zip_replicate)
  have c: "np_cov (replicate 15 (100::real)) (replicate 15 100) = 0"
    by (simp add: np_cov_def m15 z sum_list_replicate)
  have s: "\<not> has_structure (replicate 16 100)"
    by (simp add: has_structure_def bl tl np_corrcoef_def c)
  have f: "fits_model (replicate 16 100)"
    by (simp add: fits_model_def r_squared_constant)
  show ?thesis using v s f by (simp add: passed_criteria_def)
qed

lemma validation_example:
  "enforce_spacing 12 60 [15, 30] = [0, 15, 30, 59]
   \<and> py_slice (replicate 60 (100::real)) 15 31 = replicate 16 100"
  by (simp add: enforce_spacing_def py_slice_def py_norm_def Let_def)

text \<open>
  Claim C6. Over the transitions that the spacing step builds, the end of candidate segment
  \<open>i\<close> is in the validated output if and only if the segment passes at least 2 of the 3
  criteria or is the first or the last segment; the indices 0 and \<open>n - 1\<close> are always in the
  output; and for a segment of more than 3 points the criteria are: coefficient of variation
  above 0.05, absolute lag-1 autocorrelation above 0.4, and \<open>R\<^sup>2\<close> of the least-squares line
  above 0.65.
\<close>

theorem validation_keeps_boundaries:
  "(1 \<le> mp \<and> 2 \<le> n \<and> i + 1 < length (enforce_spacing mp n candidates) \<longrightarrow>
      (enforce_spacing mp n candidates ! (i + 1)
            \<in> set (validate_transitions area mp (enforce_spacing mp n candidates))
          \<longleftrightarrow> 2 \<le> passed_criteria (py_slice area (enforce_spacing mp n candidates ! i)
                                      (enforce_spacing mp n candidates ! (i + 1) + 1))
              \<or> i = 0 \<or> i + 2 = length (enforce_spacing mp n candidates))
       \<and> 0 \<in> set (validate_transitions area mp (enforce_spacing mp n candidates))
       \<and> n - 1 \<in> set (validate_transitions area mp (enforce_spacing mp n candidates)))
   \<and> (3 < length seg_area \<longrightarrow>
        passed_criteria seg_area
          = of_bool (np_std seg_area / (np_mean seg_area + 1 / 10 ^ 8) > 0.05)
            + of_bool (case np_corrcoef (butlast seg_area) (tl seg_area) of
                         None \<Rightarrow> False | Some correlation \<Rightarrow> \<bar>correlation\<bar> > 0.4)
            + of_bool (r_squared seg_area > 0.65))"
  using validation_membership[of mp n i candidates area] passed_criteria_thresholds[of seg_area]
  by blast

theorem validation_keeps_boundaries_witness:
  "(1::int) \<le> 12 \<and> (2::int) \<le> 60 \<and> 1 + 1 < length (enforce_spacing 12 60 [15, 30])
   \<and> enforce_spacing 12 60 [15, 30] = [0, 15, 30, 59]
   \<and> 3 < length [1, 2, 3, 4 :: real]
   \<and> passed_criteria (replicate 16 100) = 1
   \<and> 30 \<notin> set (validate_transitions (replicate 60 100) 12 [0, 15, 30, 59])
   \<and> 0 \<in> set (validate_transitions (replicate 60 100) 12 [0, 15, 30, 59])
   \<and> 59 \<in> set (validate_transitions (replicate 60 100) 12 [0, 15, 30, 59])"
  using validation_keeps_boundaries[of 12 60 1 "[15, 30]" "replicate 60 100" "[1, 2, 3, 4]"]
    validation_example passed_constant
  by simp

subsection \<open>The invariant of the segment list\<close>

lemma fit_segment_ok:
  assumes "0 \<le> start" and "start \<le> stop" and "stop < int (length df)"
  shows "\<exists>shape ps e. fit_segment params lib df start stop = Inr ((start, stop, shape, ps), e)"
proof -
  have "py_slice (map Height_mm df) start (stop + 1) \<noteq> []"
    using assms by (auto simp: py_slice_def py_norm_def Let_def)
  then show ?thesis
    by (auto simp: fit_segment_def Let_def split: prod.splits)
qed

lemma fit_loop_ok:
  assumes "\<And>a b. (a, b) \<in> set pairs \<Longrightarrow> 0 \<le> a \<and> a \<le> b \<and> b < int (length df) \<and> min_points params \<le> b - a + 1"
  shows "\<exists>fitted. fit_loop params lib df pairs = Inr fitted
           \<and> map (\<lambda>f. (fst (fst f), fst (snd (fst f)))) fitted = pairs"
  using assms
proof (induction pairs)
  case Nil
  then show ?case by simp
next
  case (Cons p pairs)
  obtain a b where p: "p = (a, b)" by (cases p)
  have ab: "0 \<le> a \<and> a \<le> b \<and> b < int (length df) \<and> min_points params \<le> b - a + 1"
    using Cons.prems[of a b] p by simp
  obtain shape ps e where fs: "fit_segment params lib df a b = Inr ((a, b, shape, ps), e)"
    using fit_segment_ok[of a b df params lib] ab by blast
  obtain fitted where ih: "fit_loop params lib df pairs = Inr fitted"
     "map (\<lambda>f. (fst (fst f), fst (snd (fst f)))) fitted = pairs"
    using Cons.IH Cons.prems by auto
  show ?case using p ab fs ih by simp
qed

lemma try_merge_ends:
  "try_merge current nxt = Some merged \<Longrightarrow>
     fst merged = fst current \<and> fst (snd merged) = fst (snd nxt)"
  by (cases current; cases nxt) (auto simp: try_merge_def split: if_splits)

lemma merge_run_invariant:
  "contiguous (current # rest) \<Longrightarrow>
     merge_run current rest \<noteq> []
     \<and> fst (hd (merge_run current rest)) = fst current
     \<and> fst (snd (last (merge_run current rest))) = fst (snd (last (current # rest)))
     \<and> contiguous (merge_run current rest)"
proof (induction rest arbitrary: current)
  case Nil
  then show ?case by (simp add: contiguous_def)
next
  case (Cons nxt rest)
  have c: "fst current < fst (snd current)" "fst nxt < fst (snd nxt)" "fst nxt = fst (snd current)"
    using Cons.prems by (auto simp: contiguous_def)
  have crest: "contiguous (nxt # rest)" using Cons.prems by (auto simp: contiguous_def)
  show ?case
  proof (cases "try_merge current nxt")
    case None
    have ih: "merge_run nxt rest \<noteq> [] \<and> fst (hd (merge_run nxt rest)) = fst nxt
     \<and> fst (snd (last (merge_run nxt rest))) = fst (snd (last (nxt # rest)))
     \<and> contiguous (merge_run nxt rest)"
      using Cons.IH[OF crest] .
    then obtain m ms where ms: "merge_run nxt rest = m # ms" by (cases "merge_run nxt rest") auto
    show ?thesis using None ih c ms by (auto simp: contiguous_def)
  next
    case (Some merged)
    have e: "fst merged = fst current" "fst (snd merged) = fst (snd nxt)"
      using try_merge_ends[OF Some] by auto
    have "contiguous (merged # rest)"
      using crest e c by (cases rest) (auto simp: contiguous_def)
    from Cons.IH[OF this] show ?thesis using Some e by simp
  qed
qed

lemma merge_segments_invariant:
  assumes "segments_invariant n segments"
  shows "segments_invariant n (merge_segments segments)"
proof -
  obtain s rest where sr: "segments = s # rest"
    using assms by (cases segments) (auto simp: segments_invariant_def)
  have "contiguous (s # rest)" using assms sr by (simp add: segments_invariant_def contiguous_def)
  from merge_run_invariant[OF this] show ?thesis
    using assms sr by (simp add: segments_invariant_def contiguous_def merge_segments_def)
qed

lemma sorted_le_last: "sorted xs \<Longrightarrow> x \<in> set xs \<Longrightarrow> x \<le> last (xs :: int list)"
  by (induction xs) auto

lemma sorted_hd_le: "sorted xs \<Longrightarrow> x \<in> set xs \<Longrightarrow> hd (xs :: int list) \<le> x"
  by (cases xs) auto

lemma sorted_ends:
  assumes "sorted xs" and "lo \<in> set xs" and "hi \<in> set xs"
    and "\<And>x. x \<in> set xs \<Longrightarrow> lo \<le> x \<and> x \<le> (hi::int)"
  shows "hd xs = lo \<and> last xs = hi"
proof -
  have ne: "xs \<noteq> []" using assms(2) by auto
  have "hd xs \<le> lo" using assms(1,2) by (rule sorted_hd_le)
  moreover have "lo \<le> hd xs" using assms(4) ne by simp
  moreover have "hi \<le> last xs" using assms(1,3) by (rule sorted_le_last)
  moreover have "last xs \<le> hi" using assms(4) ne by simp
  ultimately show ?thesis by simp
qed

lemma enforce_spacing_range:
  assumes "1 \<le> mp" and "2 \<le> n" and "x \<in> set (enforce_spacing mp n cands)"
  shows "0 \<le> x \<and> x \<le> n - 1"
proof -
  let ?acc = "accept_candidates mp n 0 (sort cands)"
  have sh: "enforce_spacing mp n cands = 0 # ?acc @ [n - 1]"
    by (rule enforce_spacing_shape[OF assms(1,2)])
  have sp: "sorted_wrt (\<lambda>a b. a + mp \<le> b) (0 # ?acc)"
    using accept_candidates_spaced[of mp 0 n "sort cands"] assms(1) by simp
  have "\<forall>c \<in> set ?acc. 0 \<le> c \<and> c < n - 1"
    using sp assms(1) accept_candidates_below[of _ mp n 0 "sort cands"] by fastforce
  then show ?thesis using assms(2,3) sh by auto
qed

lemma improved_transitions_shape:
  assumes res: "find_optimal_transitions_improved lib area hs mp ua = Inr T"
    and mp: "1 \<le> mp" and n: "2 \<le> int (length area)"
  shows "sorted_wrt (<) T \<and> hd T = 0 \<and> last T = int (length area) - 1 \<and> 2 \<le> length T"
proof (cases "int (length area) < 2 * mp")
  case True
  then have "T = [0, int (length area) - 1]"
    using res by (simp add: find_optimal_transitions_improved_def Let_def)
  then show ?thesis using n by simp
next
  case False
  define n' where "n' = int (length area)"
  from res False n obtain score thr where
    T: "T = transitions_at_threshold lib area mp score thr"
    by (auto simp: find_optimal_transitions_improved_def Let_def split: sum.splits if_splits)
  then obtain cands where T': "T = validate_transitions area mp (enforce_spacing mp n' cands)"
    by (simp add: transitions_at_threshold_def Let_def n'_def)
  let ?T0 = "enforce_spacing mp n' cands"
  have n2: "2 \<le> n'" using n by (simp add: n'_def)
  have sh: "?T0 = 0 # accept_candidates mp n' 0 (sort cands) @ [n' - 1]"
    by (rule enforce_spacing_shape[OF mp n2])
  have ne0: "?T0 \<noteq> []" using sh by simp
  have setT: "set T = insert (hd ?T0) (insert (last ?T0)
             ((\<lambda>i. ?T0 ! (i + 1)) ` {i. i + 1 < length ?T0 \<and> segment_kept area mp ?T0 i}))"
    unfolding T' by (rule set_validate_transitions[OF ne0])
  have hd0: "hd ?T0 = 0" and last0: "last ?T0 = n' - 1" using sh by simp_all
  have sub: "x \<in> set T \<Longrightarrow> 0 \<le> x \<and> x \<le> n' - 1" for x
  proof -
    assume "x \<in> set T"
    then consider "x = hd ?T0" | "x = last ?T0" | i where "i + 1 < length ?T0" "x = ?T0 ! (i + 1)"
      unfolding setT by blast
    then have "x \<in> set ?T0"
    proof cases
      case 1 then show ?thesis using ne0 by simp
    next
      case 2 then show ?thesis using ne0 by simp
    next
      case 3 then show ?thesis by simp
    qed
    then show ?thesis by (rule enforce_spacing_range[OF mp n2])
  qed
  have srt: "sorted T" and dst: "distinct T"
    unfolding T' by (simp_all add: validate_transitions_def Let_def)
  have in0: "0 \<in> set T" and inl: "n' - 1 \<in> set T" using setT hd0 last0 by simp_all
  have ends: "hd T = 0 \<and> last T = n' - 1"
    by (rule sorted_ends[OF srt in0 inl]) (use sub in blast)
  have "0 \<noteq> n' - 1" using n2 by simp
  then have "card {0, n' - 1} = 2" by simp
  moreover have "{0, n' - 1} \<subseteq> set T" using in0 inl by simp
  ultimately have "card (set T) \<ge> 2" by (metis List.finite_set card_mono)
  then have "2 \<le> length T" using dst by (simp add: distinct_card)
  then show ?thesis using srt dst ends by (simp add: strict_sorted_iff n'_def)
qed

lemma chain_of_bounds:
  "map (\<lambda>s. (fst s, fst (snd s))) segs = zip (t # T) T \<Longrightarrow> sorted_wrt (<) (t # T) \<Longrightarrow>
     contiguous segs
     \<and> (segs \<noteq> [] \<longrightarrow> fst (hd segs) = t \<and> fst (snd (last segs)) = last T)"
proof (induction T arbitrary: t segs)
  case Nil
  then show ?case by (simp add: contiguous_def)
next
  case (Cons u T)
  from Cons.prems(1) obtain s segs' where s: "segs = s # segs'" "fst s = t" "fst (snd s) = u"
    "map (\<lambda>s. (fst s, fst (snd s))) segs' = zip (u # T) T"
    by (cases segs) auto
  have srt: "sorted_wrt (<) (u # T)" and tu: "t < u" using Cons.prems(2) by auto
  have ih: "contiguous segs'
     \<and> (segs' \<noteq> [] \<longrightarrow> fst (hd segs') = u \<and> fst (snd (last segs')) = last T)"
    by (rule Cons.IH[OF s(4) srt])
  show ?case
  proof (cases segs')
    case Nil
    then have "T = []" using s(4) by (cases T) auto
    then show ?thesis using s Nil tu by (simp add: contiguous_def)
  next
    case (Cons s' rest)
    then have "T \<noteq> []" using s(4) by auto
    then show ?thesis using s Cons ih tu by (auto simp: contiguous_def)
  qed
qed

lemma two_step_transitions:
  "detect_transitions DEFAULT_PARAMS peak_library two_step_table = Inr [0, 15, 29]"
proof -
  let ?area = "map Area two_step_table"
  let ?hs = "map Height_mm two_step_table"
  have len: "length ?area = 30" by (simp add: length_two_step_table)
  obtain snr where snr: "estimate_snr peak_library ?area = Inr snr"
    by (simp add: estimate_snr_def peak_library_def plain_library_def Let_def)
  have det: "find_optimal_transitions_improved peak_library ?area (Some ?hs) 12 True
         = Inr (transitions_at_threshold peak_library ?area 12 (improved_score peak_library ?area ?hs)
                  (np_percentile (improved_score peak_library ?area ?hs) (adaptive_percentile snr)))"
    by (rule detector_threshold) (simp_all add: length_two_step_table snr)
  have sp: "enforce_spacing 12 30 [15] = [0, 15, 29]"
    by (simp add: enforce_spacing_def)
  have k0: "segment_kept ?area 12 [0, 15, 29] 0" by (simp add: segment_kept_def)
  have k1: "segment_kept ?area 12 [0, 15, 29] 1" by (simp add: segment_kept_def)
  have val: "validate_transitions ?area 12 [0, 15, 29] = [0, 15, 29]"
    using k0 k1 by (simp add: validate_transitions_def Let_def upt_rec numeral_nat)
  have "transitions_at_threshold peak_library ?area 12 score thr = [0, 15, 29]" for score thr
    by (simp add: transitions_at_threshold_def peak_library_def plain_library_def Let_def
        length_two_step_table sp val)
  then show ?thesis
    using det by (simp add: detect_transitions_def DEFAULT_PARAMS_def)
qed

text \<open>
  Claim C2, as amended. With the improved detector and \<open>min_points\<close> of at least 2, whenever
  every pair of consecutive detected transitions spans at least \<open>min_points\<close> points, the
  stage returns a segment list that satisfies the invariant of the data model: it is not
  empty, every segment has its start index below its end index, consecutive segments are
  contiguous, the first starts at index 0 and the last ends at the final index.
\<close>

theorem segments_invariant_of_long_spans:
  assumes meth: "transition_detection_method params = ''improved''"
    and mp: "2 \<le> min_points params"
    and det: "detect_transitions params lib df = Inr T"
    and spans: "spans_long_enough (min_points params) T"
  shows "\<exists>segs errs. segment_and_fit params lib df = Inr (segs, errs)
           \<and> segments_invariant (int (length df)) segs"
proof -
  define n where "n = int (length df)"
  have imp: "find_optimal_transitions_improved lib (map Area df) (Some (map Height_mm df))
               (min_points params) (use_adaptive_threshold params) = Inr T"
    using det meth by (simp add: detect_transitions_def Let_def)
  have n2: "2 \<le> n"
  proof (rule ccontr)
    assume "\<not> 2 \<le> n"
    then have small: "n < 2" by simp
    then have "T = [0, n - 1]"
      using imp mp by (simp add: find_optimal_transitions_improved_def Let_def n_def)
    then show False using spans mp small by (simp add: spans_long_enough_def)
  qed
  have shape: "sorted_wrt (<) T \<and> hd T = 0 \<and> last T = n - 1 \<and> 2 \<le> length T"
    using improved_transitions_shape[OF imp] mp n2 by (simp add: n_def)
  then have len2: "2 \<le> length T" by simp
  then obtain t T' where T1: "T = t # T'" by (cases T) auto
  with len2 have T2: "T' \<noteq> []" by auto
  note T = T1 T2
  have t0: "t = 0" and lastT: "last T' = n - 1" using shape T by auto
  have srt: "sorted_wrt (<) (t # T')" using shape T by auto
  have pairs: "0 \<le> a \<and> a \<le> b \<and> b < int (length df) \<and> min_points params \<le> b - a + 1"
    if "(a, b) \<in> set (zip T (tl T))" for a b
  proof -
    from that obtain i where i: "i < length T'" "a = T ! i" "b = T' ! i"
      using T by (auto simp: in_set_zip)
    have ab: "a < b" using sorted_wrt_nth_less[OF srt, of i "i + 1"] i T by simp
    have "T ! 0 \<le> T ! i" using sorted_wrt_nth_less[OF srt, of 0 i] i T by (cases i) auto
    then have a0: "0 \<le> a" using i T t0 by simp
    have "sorted T'" using srt by (simp add: strict_sorted_imp_sorted)
    moreover have "T' ! i \<in> set T'" using i(1) by simp
    ultimately have "T' ! i \<le> last T'" by (rule sorted_le_last)
    then have bn: "b \<le> n - 1" using i lastT by simp
    have "min_points params \<le> b - a + 1"
      using spans that unfolding spans_long_enough_def list_all_iff by auto
    then show ?thesis using ab a0 bn by (simp add: n_def)
  qed
  obtain fitted where f: "fit_loop params lib df (zip T (tl T)) = Inr fitted"
    "map (\<lambda>f. (fst (fst f), fst (snd (fst f)))) fitted = zip T (tl T)"
    using fit_loop_ok[of "zip T (tl T)" df params lib] pairs by blast
  have b: "map (\<lambda>s. (fst s, fst (snd s))) (map fst fitted) = zip (t # T') T'"
    using f(2) T by (simp add: comp_def)
  have ne: "map fst fitted \<noteq> []" using b T by (cases T') auto
  have "segments_invariant n (map fst fitted)"
    using chain_of_bounds[OF b srt] ne t0 lastT
    by (simp add: segments_invariant_def contiguous_def)
  then have "segments_invariant n (merge_segments (map fst fitted))"
    by (rule merge_segments_invariant)
  then show ?thesis using det f(1) by (simp add: segment_and_fit_def n_def)
qed

theorem segments_invariant_of_long_spans_witness:
  "transition_detection_method DEFAULT_PARAMS = ''improved''
   \<and> 2 \<le> min_points DEFAULT_PARAMS
   \<and> detect_transitions DEFAULT_PARAMS peak_library two_step_table = Inr [0, 15, 29]
   \<and> spans_long_enough (min_points DEFAULT_PARAMS) [0, 15, 29]
   \<and> (\<exists>segs errs. segment_and_fit DEFAULT_PARAMS peak_library two_step_table = Inr (segs, errs)
          \<and> segments_invariant (int (length two_step_table)) segs)"
proof -
  have m: "transition_detection_method DEFAULT_PARAMS = ''improved''"
    and p: "2 \<le> min_points DEFAULT_PARAMS"
    and s: "spans_long_enough (min_points DEFAULT_PARAMS) [0, 15, 29]"
    by (simp_all add: DEFAULT_PARAMS_def spans_long_enough_def)
  show ?thesis
    using segments_invariant_of_long_spans[OF m p two_step_transitions s] m p s
      two_step_transitions
    by blast
qed

text \<open>
  The claim as stated fails on a table of eight rows with increasing heights and volumes:
  the one span \<open>[0, 7]\<close> has fewer than \<open>min_points = 12\<close> points, the fitting loop skips it
  and the segment list is empty.
\<close>

theorem short_table_has_no_segment:
  "segment_and_fit DEFAULT_PARAMS plain_library (take 8 example_table) = Inr ([], [])
   \<and> \<not> segments_invariant 8 []"
  by (simp add: segment_and_fit_def detect_transitions_def find_optimal_transitions_improved_def
      DEFAULT_PARAMS_def example_table_def Let_def merge_segments_def segments_invariant_def)

subsection \<open>Hermite transition arcs\<close>

text \<open>
  The clamping interval \<open>[min(r1, r2) * 0.8, max(r1, r2) * 1.2]\<close> is not empty as soon as
  one of the two radii is non-negative.
\<close>

lemma clamp_interval_nonempty:
  "0 \<le> r1 \<or> 0 \<le> r2 \<Longrightarrow> min r1 r2 * 0.8 \<le> max r1 r2 * (1.2::real)"
  by (auto simp: min_def max_def)

text \<open>
  Claim C7. For a call of the Hermite spline transition with \<open>z2 > z1\<close> (with at least two
  sample points, and boundary radii for which the clamping interval is not empty, as it is
  for non-negative radii), the call returns, every interior radius of the arc lies in
  \<open>[min(r1, r2) * 0.8, max(r1, r2) * 1.2]\<close>, and the first and last radii are exactly
  \<open>r1\<close> and \<open>r2\<close>.
\<close>

theorem hermite_spline_transition_clamped:
  assumes "z1 < z2" and "2 \<le> num_points" and "min r1 r2 * 0.8 \<le> max r1 r2 * 1.2"
  shows "\<exists>zs rs. hermite_spline_transition z1 r1 slope1 z2 r2 slope2 num_points tension
                    = Inr (zs, rs)
           \<and> length zs = nat num_points \<and> length rs = nat num_points
           \<and> hd rs = r1 \<and> last rs = r2
           \<and> (\<forall>i. 0 < i \<and> i < nat num_points - 1 \<longrightarrow>
                 min r1 r2 * 0.8 \<le> rs ! i \<and> rs ! i \<le> max r1 r2 * 1.2)"
proof -
  define n where "n = nat num_points"
  have n2: "2 \<le> n" using assms(2) by (simp add: n_def)
  define t where "t = np_linspace 0 1 n"
  define r_min where "r_min = min r1 r2 * 0.8"
  define r_max where "r_max = max r1 r2 * 1.2"
  define r_trans where "r_trans = map (\<lambda>ti. h00 ti * r1 + h10 ti * r2
      + h01 ti * (slope1 * (z2 - z1) * tension) + h11 ti * (slope2 * (z2 - z1) * tension)) t"
  define r_clip where "r_clip = map (\<lambda>r. np_clip r r_min r_max) r_trans"
  define rs where "rs = (r_clip[0 := r1])[length r_clip - 1 := r2]"
  define zs where "zs = map (\<lambda>ti. z1 + ti * (z2 - z1)) t"
  have len: "length r_clip = n"
    by (simp add: r_clip_def r_trans_def t_def length_np_linspace)
  have ne: "r_clip \<noteq> []" using len n2 by auto
  have eq: "hermite_spline_transition z1 r1 slope1 z2 r2 slope2 num_points tension = Inr (zs, rs)"
    using assms(1,2) ne
    by (simp add: hermite_spline_transition_def Let_def GEOMETRIC_CONSTRAINTS_def
        rs_def r_clip_def r_trans_def zs_def t_def n_def r_min_def r_max_def)
  have lrs: "length rs = n" by (simp add: rs_def len)
  have lzs: "length zs = n" by (simp add: zs_def t_def length_np_linspace)
  have rne: "rs \<noteq> []" using lrs n2 by auto
  have "rs ! 0 = r1" using n2 len by (simp add: rs_def nth_list_update)
  then have first: "hd rs = r1" using rne by (simp add: hd_conv_nth)
  have "rs ! (n - 1) = r2" using n2 len by (simp add: rs_def nth_list_update)
  then have final: "last rs = r2" using rne lrs by (simp add: last_conv_nth)
  have order: "r_min \<le> r_max"
    using assms(3) by (simp add: r_min_def r_max_def)
  have mid: "r_min \<le> rs ! i \<and> rs ! i \<le> r_max" if "0 < i" "i < n - 1" for i
  proof -
    have "rs ! i = r_clip ! i" using that len by (simp add: rs_def nth_list_update)
    also have "\<dots> = np_clip (r_trans ! i) r_min r_max"
      using that len by (simp add: r_clip_def)
    finally show ?thesis using np_clip_bounds[OF order] by simp
  qed
  show ?thesis
    using eq lrs lzs first final mid unfolding n_def r_min_def r_max_def by blast
qed

theorem hermite_spline_transition_clamped_witness:
  "(0::real) < 1 \<and> (2::int) \<le> 3 \<and> min 1 2 * 0.8 \<le> max 1 2 * (1.2::real)
   \<and> hermite_spline_transition 0 1 0 1 2 0 3 0.6 = Inr ([0, 1/2, 1], [1, 3/2, 2])"
  using hermite_spline_transition_clamped[of 0 1 3 1 2 0 0 "0.6"]
  by (simp add: hermite_spline_transition_def Let_def GEOMETRIC_CONSTRAINTS_def
      np_linspace_def np_clip_def h00_def h10_def h01_def h11_def upt_rec numeral_nat)

subsection \<open>The reconstructed profile\<close>

lemma sqrt_floor: "0.1 \<le> sqrt (max x 0.01)"
proof -
  have "sqrt 0.01 = (0.1::real)"
    by (rule real_sqrt_unique) (simp_all add: power2_eq_square)
  moreover have "sqrt 0.01 \<le> sqrt (max x 0.01)" by simp
  ultimately show ?thesis by linarith
qed

lemma drop_duplicates_keys:
  "distinct (map fst (drop_duplicates seen rows))
   \<and> set (map fst (drop_duplicates seen rows)) \<inter> set seen = {}"
proof (induction seen rows rule: drop_duplicates.induct)
  case (1 seen)
  then show ?case by simp
next
  case (2 seen z r rows)
  then show ?case by auto
qed

lemma direct_profile_ok:
  assumes "sorted_wrt (<) (map Height_mm df)"
  shows "sorted_wrt (<) (fst (direct_profile df)) \<and> list_all (\<lambda>r. 0.1 \<le> r) (snd (direct_profile df))"
  using assms sqrt_floor by (simp add: direct_profile_def list_all_iff)

lemma hermite_25_total:
  "\<exists>zt rt. hermite_spline_transition z1 r1 s1 z2 r2 s2 25 t = Inr (zt, rt)"
  by (simp add: hermite_spline_transition_def Let_def np_linspace_def)

lemma segment_profile_cylinder:
  "py_index df s = Inr a \<Longrightarrow> py_index df e = Inr b \<Longrightarrow>
   \<exists>r. segment_profile df (s, e, ''cylinder'', [c]) = Inr r"
  by (simp add: segment_profile_def Let_def)

lemma next_segment_start_cylinder:
  "py_index df s = Inr a \<Longrightarrow> \<exists>r. next_segment_start df (s, e, ''cylinder'', [c]) = Inr r"
  by (simp add: next_segment_start_def Let_def)

lemma two_step_index:
  "0 \<le> i \<Longrightarrow> i < 30 \<Longrightarrow> \<exists>row. py_index two_step_table i = Inr row"
  by (simp add: py_index_def two_step_table_def)

lemma two_cylinders_loop:
  "\<exists>pts. profile_loop two_step_table t [(0, 15, ''cylinder'', [5]), (15, 29, ''cylinder'', [8])]
           = Inr pts"
proof -
  obtain r0 where r0: "py_index two_step_table 0 = Inr r0" using two_step_index[of 0] by auto
  obtain r15 where r15: "py_index two_step_table 15 = Inr r15" using two_step_index[of 15] by auto
  obtain r29 where r29: "py_index two_step_table 29 = Inr r29" using two_step_index[of 29] by auto
  obtain p1 where p1: "segment_profile two_step_table (0, 15, ''cylinder'', [5]) = Inr p1"
    using segment_profile_cylinder[OF r0 r15] by blast
  obtain p2 where p2: "segment_profile two_step_table (15, 29, ''cylinder'', [8]) = Inr p2"
    using segment_profile_cylinder[OF r15 r29] by blast
  obtain q where q: "next_segment_start two_step_table (15, 29, ''cylinder'', [8]) = Inr q"
    using next_segment_start_cylinder[OF r15] by blast
  have l2: "\<exists>pts. profile_loop two_step_table t [(15, 29, ''cylinder'', [8])] = Inr pts"
    using p2 by (cases p2) (auto split: prod.splits)
  then obtain pts2 where pts2: "profile_loop two_step_table t [(15, 29, ''cylinder'', [8])] = Inr pts2"
    by blast
  show ?thesis
  proof (cases p1)
    case None
    then show ?thesis using p1 pts2 by simp
  next
    case (Some v)
    obtain z_seg r_seg slope_end where v: "v = (z_seg, r_seg, slope_end)" by (cases v)
    obtain nh nr ns where qq: "q = (nh, nr, ns)" by (cases q)
    obtain zt rt where h: "hermite_spline_transition (last z_seg) (last r_seg) slope_end nh nr ns 25 t
        = Inr (zt, rt)" using hermite_25_total by blast
    show ?thesis using p1 Some v q qq h pts2 by simp
  qed
qed

lemma profile_returns:
  "profile_loop df t segs = Inr full \<Longrightarrow>
   \<exists>zs rs. create_enhanced_profile lib segs df t = Inr (zs, rs)"
  by (simp add: create_enhanced_profile_def Let_def direct_profile_def)

lemma heights_sorted: "sorted_wrt (<) (map Height_mm two_step_table)"
  by (simp add: two_step_table_def sorted_wrt_map comp_def)

text \<open>
  Claim C3. For every segment list and every area table whose heights are strictly
  increasing, a profile returned by the reconstructor has strictly increasing heights and
  radii of at least 0.1, on the single-segment path and on the blended path alike.
\<close>

theorem profile_heights_increase_radii_floored:
  assumes "sorted_wrt (<) (map Height_mm df_areas)"
    and "create_enhanced_profile lib segments df_areas tension = Inr (zs, rs)"
  shows "sorted_wrt (<) zs \<and> list_all (\<lambda>r. 0.1 \<le> r) rs"
proof (cases "length segments \<le> 1")
  case True
  then have "(zs, rs) = direct_profile df_areas"
    using assms(2) by (simp add: create_enhanced_profile_def)
  then show ?thesis using direct_profile_ok[OF assms(1)] by (metis fst_conv snd_conv)
next
  case False
  then obtain full where full: "profile_loop df_areas tension segments = Inr full"
    using assms(2) by (auto simp: create_enhanced_profile_def split: sum.splits)
  show ?thesis
  proof (cases "length full > 1")
    case True
    define profile_df where "profile_df = sort_key fst (drop_duplicates [] full)"
    have zs: "zs = map fst profile_df"
      and rs: "rs = map (\<lambda>r. max r 0.1) (gaussian_filter1d lib (map snd profile_df) 0.8 ''nearest'')"
      using assms(2) False full True
      by (simp_all add: create_enhanced_profile_def Let_def profile_df_def)
    have "sorted (map fst profile_df)" by (simp add: profile_df_def)
    moreover have "distinct (map fst profile_df)"
      using drop_duplicates_keys[of "[]" full] by (simp add: profile_df_def distinct_map)
    ultimately have "sorted_wrt (<) zs" by (simp add: zs strict_sorted_iff)
    moreover have "list_all (\<lambda>r. 0.1 \<le> r) rs"
      unfolding rs list_all_iff by (auto simp: max_def)
    ultimately show ?thesis by simp
  next
    case f: False
    then have "(zs, rs) = direct_profile df_areas"
      using assms(2) False full by (simp add: create_enhanced_profile_def)
    then show ?thesis using direct_profile_ok[OF assms(1)] by (metis fst_conv snd_conv)
  qed
qed

theorem profile_heights_increase_radii_floored_witness:
  "sorted_wrt (<) (map Height_mm two_step_table)
   \<and> (\<exists>zs rs. create_enhanced_profile plain_library
          [(0, 15, ''cylinder'', [5]), (15, 29, ''cylinder'', [8])] two_step_table 0.6 = Inr (zs, rs)
        \<and> sorted_wrt (<) zs \<and> list_all (\<lambda>r. 0.1 \<le> r) rs)"
proof -
  obtain pts where "profile_loop two_step_table 0.6
      [(0, 15, ''cylinder'', [5]), (15, 29, ''cylinder'', [8])] = Inr pts"
    using two_cylinders_loop by blast
  then obtain zs rs where r: "create_enhanced_profile plain_library
          [(0, 15, ''cylinder'', [5]), (15, 29, ''cylinder'', [8])] two_step_table 0.6 = Inr (zs, rs)"
    using profile_returns by blast
  show ?thesis
    using profile_heights_increase_radii_floored[OF heights_sorted r] heights_sorted r by blast
qed

subsection \<open>What the output of the stage depends on\<close>

lemma config_read_clock: "config (snd (read_clock w)) = config w"
  by (simp add: read_clock_def)

lemma config_add_warning: "config (snd (add_warning m j w)) = config w"
  by (simp add: add_warning_def read_clock_def Let_def)

lemma config_complete_step: "config (snd (complete_step s d j w)) = config w"
  by (simp add: complete_step_def read_clock_def Let_def)















end
